theory Spec2Isabelle
  imports Complex_Main "HOL-Library.Product_Lexorder" "HOL-Library.List_Lexorder"
    "HOL-Library.Char_ord"
begin

section \<open>Data model (core/models.py)\<close>

text \<open>
  The three status enumerations of \<^verbatim>\<open>models.py\<close>. The constructors carry the entity as a
  prefix because \<^verbatim>\<open>PENDING\<close>, \<^verbatim>\<open>COMPLETED\<close> and \<^verbatim>\<open>FAILED\<close> occur in more than one of them.
\<close>

datatype JobStatus =
  JOB_PENDING | JOB_QUEUED | JOB_ACTIVE | JOB_COMPLETED | JOB_FAILED | JOB_SUSPENDED
  | JOB_CANCELLED

datatype TaskStatus =
  TASK_PENDING | TASK_ASSIGNED | TASK_RUNNING | TASK_COMPLETED | TASK_FAILED

datatype WorkerStatus =
  WORKER_IDLE | WORKER_BUSY | WORKER_OFFLINE | WORKER_DISABLED

text \<open>
  A \<^verbatim>\<open>datetime\<close> is the number of microseconds since the epoch, a \<^verbatim>\<open>timedelta\<close> a number of
  microseconds, both exact integers as in Python. A \<^verbatim>\<open>float\<close> (progress, cpu usage) is read
  as the real number it stands for; the arithmetic on floats rounds, and is a parameter of
  the model (\<^verbatim>\<open>float_arith\<close> below). The opaque \<^verbatim>\<open>dict[str, Any]\<close> payloads are association
  lists; the coordinator only stores and returns them.
\<close>

type_synonym datetime = int
type_synonym payload = "(string \<times> string) list"

text \<open>
  The float operations that the coordinator uses: \<^verbatim>\<open>+\<close>, \<^verbatim>\<open>*\<close> and \<^verbatim>\<open>/\<close>. Each returns the
  double nearest to the exact result, so none of them is the operation on the reals
  (\<^verbatim>\<open>100.0 / 3\<close> is \<^verbatim>\<open>33.333333333333336\<close>). The functions that compute with floats take
  the three operations as an argument and what is proved of them holds for every choice,
  that of the interpreter included.
\<close>

record float_arith =
  float_add :: "real \<Rightarrow> real \<Rightarrow> real"
  float_mul :: "real \<Rightarrow> real \<Rightarrow> real"
  float_truediv :: "real \<Rightarrow> real \<Rightarrow> real"

record Job =
  j_id :: string
  j_name :: string
  j_plugin :: string
  j_priority :: int
  j_pool :: string
  j_plugin_data :: payload
  j_status :: JobStatus
  j_progress :: real
  j_task_total :: int
  j_task_completed :: int
  j_task_failed :: int
  j_dependent_on :: "string list"
  j_metadata :: payload
  j_submitted_by :: "string option"
  j_submitted_at :: datetime
  j_started_at :: "datetime option"
  j_finished_at :: "datetime option"
  j_error_message :: "string option"

record Task =
  t_id :: string
  t_job_id :: string
  t_index :: int
  t_status :: TaskStatus
  t_progress :: real
  t_command :: "string list"
  t_working_dir :: "string option"
  t_environment :: payload
  t_frame_start :: "int option"
  t_frame_end :: "int option"
  t_metadata :: payload
  t_assigned_worker :: "string option"
  t_started_at :: "datetime option"
  t_finished_at :: "datetime option"
  t_exit_code :: "int option"
  t_error_message :: "string option"
  t_log_path :: "string option"

record Worker =
  w_id :: string
  w_name :: string
  w_hostname :: string
  w_ip_address :: string
  w_status :: WorkerStatus
  w_current_task :: "string option"
  w_pools :: "string list"
  w_capabilities :: "string list"
  w_cpu_cores :: int
  w_cpu_usage :: real
  w_memory_total :: int
  w_memory_used :: int
  w_last_heartbeat :: "datetime option"
  w_version :: string

text \<open>
  \<^verbatim>\<open>JobSubmission\<close>, and the heartbeat dictionary of the worker protocol: every key of the
  heartbeat may be absent, and \<^verbatim>\<open>update_worker_heartbeat\<close> reads each with \<^verbatim>\<open>dict.get\<close>.
  A key that is present holds a value of the type that \<^verbatim>\<open>WorkerHeartbeat\<close> declares for it, as
  in the heartbeat that the worker agent sends; for \<^verbatim>\<open>current_task\<close>, whose type is optional,
  an absent key and a null value are the same \<^verbatim>\<open>None\<close>.
\<close>

record JobSubmission =
  s_name :: string
  s_plugin :: string
  s_priority :: int
  s_pool :: string
  s_plugin_data :: payload
  s_dependent_on :: "string list"
  s_metadata :: payload

record Heartbeat =
  hb_status :: "WorkerStatus option"
  hb_current_task :: "string option"
  hb_cpu_usage :: "real option"
  hb_memory_used :: "int option"

text \<open>
  Python truthiness of an optional string, as in \<^verbatim>\<open>if worker.current_task:\<close>: \<^verbatim>\<open>None\<close> and the
  empty string are both false.
\<close>

definition truthy :: "string option \<Rightarrow> bool" where
  "truthy v = (case v of None \<Rightarrow> False | Some s \<Rightarrow> s \<noteq> [])"

section \<open>The store (core/database.py)\<close>

text \<open>
  The three SQLite tables, each a list of rows in insertion (rowid) order. \<^verbatim>\<open>id\<close> is the
  primary key of each table: an insert of a present id raises.
\<close>

record Database =
  jobs :: "Job list"
  tasks :: "Task list"
  workers :: "Worker list"

datatype error = IntegrityError | PluginError string | HTTPException nat string

fun status_code :: "error \<Rightarrow> nat" where
  "status_code (HTTPException c d) = c"
| "status_code IntegrityError = 500"
| "status_code (PluginError m) = 500"

definition empty_db :: Database where
  "empty_db = \<lparr>jobs = [], tasks = [], workers = []\<rparr>"

subsection \<open>Jobs\<close>

definition get_job :: "Database \<Rightarrow> string \<Rightarrow> Job option" where
  "get_job db job_id = find (\<lambda>j. j_id j = job_id) (jobs db)"

definition add_job :: "Database \<Rightarrow> Job \<Rightarrow> error + Database" where
  "add_job db job =
     (if get_job db (j_id job) \<noteq> None then Inl IntegrityError
      else Inr (db\<lparr>jobs := jobs db @ [job]\<rparr>))"

definition get_jobs_by_status :: "Database \<Rightarrow> JobStatus \<Rightarrow> Job list" where
  "get_jobs_by_status db status =
     sort_key (\<lambda>j. (- j_priority j, j_submitted_at j))
       (filter (\<lambda>j. j_status j = status) (jobs db))"

text \<open>\<^verbatim>\<open>update_job\<close> writes every column but \<^verbatim>\<open>submitted_by\<close> and \<^verbatim>\<open>submitted_at\<close>.\<close>

definition update_job :: "Database \<Rightarrow> Job \<Rightarrow> Database" where
  "update_job db job =
     db\<lparr>jobs := map (\<lambda>r. if j_id r = j_id job
        then job\<lparr>j_submitted_by := j_submitted_by r, j_submitted_at := j_submitted_at r\<rparr>
        else r) (jobs db)\<rparr>"

definition update_job_status ::
  "Database \<Rightarrow> datetime \<Rightarrow> string \<Rightarrow> JobStatus \<Rightarrow> string option \<Rightarrow> Database" where
  "update_job_status db now job_id status error_message =
     db\<lparr>jobs := map (\<lambda>r. if j_id r = job_id
        then (if status = JOB_ACTIVE then r\<lparr>j_status := status, j_started_at := Some now\<rparr>
              else if status \<in> {JOB_COMPLETED, JOB_FAILED, JOB_CANCELLED}
              then r\<lparr>j_status := status, j_finished_at := Some now,
                     j_error_message := error_message\<rparr>
              else r\<lparr>j_status := status\<rparr>)
        else r) (jobs db)\<rparr>"

definition delete_job :: "Database \<Rightarrow> string \<Rightarrow> Database" where
  "delete_job db job_id =
     db\<lparr>tasks := filter (\<lambda>t. t_job_id t \<noteq> job_id) (tasks db),
        jobs := filter (\<lambda>j. j_id j \<noteq> job_id) (jobs db)\<rparr>"

subsection \<open>Tasks\<close>

definition get_task :: "Database \<Rightarrow> string \<Rightarrow> Task option" where
  "get_task db task_id = find (\<lambda>t. t_id t = task_id) (tasks db)"

definition add_task :: "Database \<Rightarrow> Task \<Rightarrow> error + Database" where
  "add_task db task =
     (if get_task db (t_id task) \<noteq> None then Inl IntegrityError
      else Inr (db\<lparr>tasks := tasks db @ [task]\<rparr>))"

definition get_tasks_by_job :: "Database \<Rightarrow> string \<Rightarrow> Task list" where
  "get_tasks_by_job db job_id =
     sort_key t_index (filter (\<lambda>t. t_job_id t = job_id) (tasks db))"

text \<open>
  The dispatch query: pending tasks joined with their job, the job queued or active and in
  one of the worker's pools, ordered by priority (descending), submission time and task
  index, first row only. Rows with equal keys keep their table order.
\<close>

definition get_next_task_for_worker :: "Database \<Rightarrow> Worker \<Rightarrow> Task option" where
  "get_next_task_for_worker db worker =
     (let rows = concat (map (\<lambda>t. map (\<lambda>j. (t, j))
                   (filter (\<lambda>j. t_job_id t = j_id j
                      \<and> t_status t = TASK_PENDING
                      \<and> j_status j \<in> {JOB_QUEUED, JOB_ACTIVE}
                      \<and> j_pool j \<in> set (w_pools worker)) (jobs db))) (tasks db));
          ordered = sort_key (\<lambda>(t, j). (- j_priority j, j_submitted_at j, t_index t)) rows
      in case ordered of [] \<Rightarrow> None | (t, j) # _ \<Rightarrow> Some t)"

definition update_task :: "Database \<Rightarrow> Task \<Rightarrow> Database" where
  "update_task db task =
     db\<lparr>tasks := map (\<lambda>r. if t_id r = t_id task
        then r\<lparr>t_status := t_status task, t_progress := t_progress task,
               t_assigned_worker := t_assigned_worker task,
               t_started_at := t_started_at task, t_finished_at := t_finished_at task,
               t_exit_code := t_exit_code task, t_error_message := t_error_message task,
               t_log_path := t_log_path task\<rparr>
        else r) (tasks db)\<rparr>"

definition coalesce :: "'a option \<Rightarrow> 'a option \<Rightarrow> 'a option" where
  "coalesce new old = (case new of None \<Rightarrow> old | Some v \<Rightarrow> Some v)"

definition update_task_status ::
  "Database \<Rightarrow> string \<Rightarrow> TaskStatus \<Rightarrow> datetime option \<Rightarrow> datetime option \<Rightarrow> int option
     \<Rightarrow> string option \<Rightarrow> Database" where
  "update_task_status db task_id status started_at finished_at exit_code error_message =
     db\<lparr>tasks := map (\<lambda>r. if t_id r = task_id
        then r\<lparr>t_status := status,
               t_started_at := coalesce started_at (t_started_at r),
               t_finished_at := coalesce finished_at (t_finished_at r),
               t_exit_code := coalesce exit_code (t_exit_code r),
               t_error_message := coalesce error_message (t_error_message r)\<rparr>
        else r) (tasks db)\<rparr>"

definition update_task_progress :: "Database \<Rightarrow> string \<Rightarrow> real \<Rightarrow> Database" where
  "update_task_progress db task_id progress =
     db\<lparr>tasks := map (\<lambda>r. if t_id r = task_id then r\<lparr>t_progress := progress\<rparr> else r)
        (tasks db)\<rparr>"

subsection \<open>Workers\<close>

definition get_worker :: "Database \<Rightarrow> string \<Rightarrow> Worker option" where
  "get_worker db worker_id = find (\<lambda>w. w_id w = worker_id) (workers db)"

definition get_workers :: "Database \<Rightarrow> Worker list" where
  "get_workers db = sort_key w_name (workers db)"

definition upsert_worker :: "Database \<Rightarrow> Worker \<Rightarrow> Database" where
  "upsert_worker db worker =
     (if get_worker db (w_id worker) = None then db\<lparr>workers := workers db @ [worker]\<rparr>
      else db\<lparr>workers := map (\<lambda>r. if w_id r = w_id worker then worker else r)
             (workers db)\<rparr>)"

definition update_worker :: "Database \<Rightarrow> Worker \<Rightarrow> Database" where
  "update_worker db worker = upsert_worker db worker"

definition update_worker_heartbeat ::
  "Database \<Rightarrow> datetime \<Rightarrow> string \<Rightarrow> Heartbeat \<Rightarrow> Database" where
  "update_worker_heartbeat db now worker_id heartbeat =
     db\<lparr>workers := map (\<lambda>r. if w_id r = worker_id
        then r\<lparr>w_status := (case hb_status heartbeat of None \<Rightarrow> WORKER_IDLE | Some s \<Rightarrow> s),
               w_current_task := hb_current_task heartbeat,
               w_cpu_usage := (case hb_cpu_usage heartbeat of None \<Rightarrow> 0 | Some c \<Rightarrow> c),
               w_memory_used := (case hb_memory_used heartbeat of None \<Rightarrow> 0 | Some m \<Rightarrow> m),
               w_last_heartbeat := Some now\<rparr>
        else r) (workers db)\<rparr>"

definition mark_worker_offline :: "Database \<Rightarrow> string \<Rightarrow> Database" where
  "mark_worker_offline db worker_id =
     db\<lparr>workers := map (\<lambda>r. if w_id r = worker_id
        then r\<lparr>w_status := WORKER_OFFLINE, w_current_task := None\<rparr>
        else r) (workers db)\<rparr>"

definition delete_worker :: "Database \<Rightarrow> string \<Rightarrow> Database" where
  "delete_worker db worker_id =
     db\<lparr>workers := filter (\<lambda>w. w_id w \<noteq> worker_id) (workers db)\<rparr>"

section \<open>Plugins (plugins/base.py, plugins/registry.py)\<close>

text \<open>
  A plugin as the coordinator calls it. \<^verbatim>\<open>validate\<close> returns its pair; \<^verbatim>\<open>create_tasks\<close> and
  \<^verbatim>\<open>get_encoding_jobs\<close> may raise (\<open>Inl\<close>). \<^verbatim>\<open>get_encoding_jobs\<close> is optional: the scheduler
  tests for it with \<^verbatim>\<open>hasattr\<close>, so a plugin without it has \<open>None\<close> there. A follow-up
  descriptor is a dictionary whose keys may all be absent.
\<close>

record JobData =
  jd_name :: "string option"
  jd_plugin :: "string option"
  jd_priority :: "int option"
  jd_pool :: "string option"
  jd_plugin_data :: "payload option"
  jd_dependent_on :: "string list option"
  jd_metadata :: "payload option"

record RenderPlugin =
  validate :: "payload \<Rightarrow> bool \<times> string option"
  create_tasks :: "Job \<Rightarrow> error + Task list"
  get_encoding_jobs :: "(Job \<Rightarrow> error + JobData list) option"

type_synonym registry = "string \<Rightarrow> RenderPlugin option"

text \<open>The \<^verbatim>\<open>Job(...)\<close> constructor with the defaults of the model for the other fields.\<close>

definition new_Job ::
  "string \<Rightarrow> string \<Rightarrow> string \<Rightarrow> int \<Rightarrow> string \<Rightarrow> payload \<Rightarrow> string list \<Rightarrow> payload \<Rightarrow> datetime
     \<Rightarrow> Job" where
  "new_Job ident name plugin priority pool plugin_data dependent_on metadata submitted_at =
     \<lparr>j_id = ident, j_name = name, j_plugin = plugin, j_priority = priority, j_pool = pool,
      j_plugin_data = plugin_data, j_status = JOB_PENDING, j_progress = 0,
      j_task_total = 0, j_task_completed = 0, j_task_failed = 0,
      j_dependent_on = dependent_on, j_metadata = metadata, j_submitted_by = None,
      j_submitted_at = submitted_at, j_started_at = None, j_finished_at = None,
      j_error_message = None\<rparr>"

section \<open>The scheduler (core/scheduler.py)\<close>

definition worker_timeout :: int where
  "worker_timeout = 60"

definition max_task_retries :: nat where
  "max_task_retries = 3"

definition timedelta_seconds :: "int \<Rightarrow> int" where
  "timedelta_seconds s = s * 1000000"

fun str_nat :: "nat \<Rightarrow> string" where
  "str_nat n =
     (if n < 10 then [char_of (48 + n)]
      else str_nat (n div 10) @ [char_of (48 + n mod 10)])"

declare str_nat.simps [simp del]

definition check_dependencies :: "Database \<Rightarrow> Job \<Rightarrow> bool" where
  "check_dependencies db job =
     list_all (\<lambda>dep_id. case get_job db dep_id of
                          None \<Rightarrow> False
                        | Some dep_job \<Rightarrow> j_status dep_job = JOB_COMPLETED)
       (j_dependent_on job)"

subsection \<open>Heartbeat timeout sweep\<close>

text \<open>
  The body of the loop of \<^verbatim>\<open>_check_worker_timeouts\<close> for one worker of the list read at the
  start of the sweep, and the sweep itself. \<open>now\<close> is the clock value read at the start.
\<close>

definition check_worker_timeout :: "datetime \<Rightarrow> Database \<Rightarrow> Worker \<Rightarrow> Database" where
  "check_worker_timeout now db worker =
     (if w_status worker = WORKER_OFFLINE then db
      else case w_last_heartbeat worker of
        None \<Rightarrow> db
      | Some last_heartbeat \<Rightarrow>
          if now - last_heartbeat > timedelta_seconds worker_timeout
          then mark_worker_offline
                 (case w_current_task worker of
                    None \<Rightarrow> db
                  | Some task_id \<Rightarrow>
                      if task_id = [] then db
                      else (case get_task db task_id of
                              None \<Rightarrow> db
                            | Some task \<Rightarrow>
                                if t_status task = TASK_RUNNING
                                then update_task db
                                       (task\<lparr>t_status := TASK_PENDING,
                                             t_assigned_worker := None\<rparr>)
                                else db))
                 (w_id worker)
          else db)"

definition check_worker_timeouts :: "datetime \<Rightarrow> Database \<Rightarrow> Database" where
  "check_worker_timeouts now db = foldl (check_worker_timeout now) db (get_workers db)"

subsection \<open>Follow-up jobs\<close>

text \<open>
  \<open>uuid4 n\<close> is the \<open>n\<close>-th identifier the generator returns during one scheduler pass; the
  counter is threaded through the pass. An exception inside the \<^verbatim>\<open>try\<close> (the plugin raising,
  or an insert failing) ends the creation loop and is swallowed.
\<close>

fun add_follow_up_jobs ::
  "(nat \<Rightarrow> string) \<Rightarrow> datetime \<Rightarrow> Job \<Rightarrow> JobData list \<Rightarrow> Database \<times> nat \<Rightarrow> Database \<times> nat"
  where
  "add_follow_up_jobs uuid4 now job [] (db, n) = (db, n)"
| "add_follow_up_jobs uuid4 now job (job_data # rest) (db, n) =
     (let new_job = new_Job (uuid4 n)
            (case jd_name job_data of None \<Rightarrow> j_name job @ '' - Encode'' | Some v \<Rightarrow> v)
            (case jd_plugin job_data of None \<Rightarrow> ''ffmpeg'' | Some v \<Rightarrow> v)
            (case jd_priority job_data of None \<Rightarrow> j_priority job | Some v \<Rightarrow> v)
            (case jd_pool job_data of None \<Rightarrow> j_pool job | Some v \<Rightarrow> v)
            (case jd_plugin_data job_data of None \<Rightarrow> [] | Some v \<Rightarrow> v)
            (case jd_dependent_on job_data of None \<Rightarrow> [] | Some v \<Rightarrow> v)
            (case jd_metadata job_data of None \<Rightarrow> [] | Some v \<Rightarrow> v)
            now
      in case add_job db new_job of
           Inl e \<Rightarrow> (db, Suc n)
         | Inr db' \<Rightarrow> add_follow_up_jobs uuid4 now job rest (db', Suc n))"

definition create_follow_up_jobs ::
  "registry \<Rightarrow> (nat \<Rightarrow> string) \<Rightarrow> datetime \<Rightarrow> Job \<Rightarrow> Database \<times> nat \<Rightarrow> Database \<times> nat" where
  "create_follow_up_jobs plugins uuid4 now job st =
     (case plugins (j_plugin job) of
        None \<Rightarrow> st
      | Some plugin \<Rightarrow>
          (case get_encoding_jobs plugin of
             None \<Rightarrow> st
           | Some f \<Rightarrow>
               (case f job of
                  Inl e \<Rightarrow> st
                | Inr encoding_jobs \<Rightarrow> add_follow_up_jobs uuid4 now job encoding_jobs st)))"

subsection \<open>Progress aggregation\<close>

definition count_status :: "TaskStatus \<Rightarrow> Task list \<Rightarrow> nat" where
  "count_status s ts = length (filter (\<lambda>t. t_status t = s) ts)"

definition task_progress_sum :: "float_arith \<Rightarrow> Task list \<Rightarrow> real" where
  "task_progress_sum fp ts =
     foldl (\<lambda>progress task.
              if t_status task = TASK_COMPLETED then float_add fp progress 100
              else if t_status task = TASK_RUNNING then float_add fp progress (t_progress task)
              else progress) 0 ts"

text \<open>
  The body of the loop of \<^verbatim>\<open>_update_job_progress\<close> for one job of the list of active jobs
  read at the start of the pass.
\<close>

definition update_one_job_progress ::
  "registry \<Rightarrow> float_arith \<Rightarrow> (nat \<Rightarrow> string) \<Rightarrow> datetime \<Rightarrow> Database \<times> nat \<Rightarrow> Job
    \<Rightarrow> Database \<times> nat" where
  "update_one_job_progress plugins fp uuid4 now st job =
     (let db = fst st; ts = get_tasks_by_job db (j_id job) in
      if ts = [] then st
      else
        let completed = count_status TASK_COMPLETED ts;
            failed = count_status TASK_FAILED ts;
            total = length ts;
            progress = (if total > 0
                        then float_truediv fp (task_progress_sum fp ts) (real total)
                        else task_progress_sum fp ts);
            job1 = job\<lparr>j_progress := progress, j_task_completed := int completed,
                       j_task_failed := int failed\<rparr>
        in if completed + failed \<ge> total then
             (if failed = 0 then
                (let job2 = job1\<lparr>j_status := JOB_COMPLETED, j_finished_at := Some now\<rparr>;
                     st' = create_follow_up_jobs plugins uuid4 now job2 st
                 in (update_job (fst st') job2, snd st'))
              else if failed \<ge> total \<or> failed > max_task_retries then
                (update_job db
                   (job1\<lparr>j_status := JOB_FAILED, j_finished_at := Some now,
                         j_error_message := Some (str_nat failed @ '' tasks failed'')\<rparr>),
                 snd st)
              else (update_job db job1, snd st))
           else (update_job db job1, snd st))"

definition update_job_progress ::
  "registry \<Rightarrow> float_arith \<Rightarrow> (nat \<Rightarrow> string) \<Rightarrow> datetime \<Rightarrow> Database \<Rightarrow> Database" where
  "update_job_progress plugins fp uuid4 now db =
     fst (foldl (update_one_job_progress plugins fp uuid4 now) (db, 0)
            (get_jobs_by_status db JOB_ACTIVE))"

text \<open>One iteration of the loop of \<^verbatim>\<open>Scheduler.start\<close>: the sweep, then the aggregation.\<close>

definition scheduler_tick ::
  "registry \<Rightarrow> float_arith \<Rightarrow> (nat \<Rightarrow> string) \<Rightarrow> datetime \<Rightarrow> Database \<Rightarrow> Database" where
  "scheduler_tick plugins fp uuid4 now db =
     update_job_progress plugins fp uuid4 now (check_worker_timeouts now db)"

subsection \<open>Manual operations\<close>

definition suspend_job :: "Database \<Rightarrow> datetime \<Rightarrow> string \<Rightarrow> Database \<times> bool" where
  "suspend_job db now job_id =
     (case get_job db job_id of
        None \<Rightarrow> (db, False)
      | Some job \<Rightarrow>
          if j_status job \<in> {JOB_PENDING, JOB_QUEUED, JOB_ACTIVE}
          then (update_job_status db now job_id JOB_SUSPENDED None, True)
          else (db, False))"

definition resume_job :: "Database \<Rightarrow> datetime \<Rightarrow> string \<Rightarrow> Database \<times> bool" where
  "resume_job db now job_id =
     (case get_job db job_id of
        None \<Rightarrow> (db, False)
      | Some job \<Rightarrow>
          if j_status job = JOB_SUSPENDED
          then (if list_ex (\<lambda>t. t_status t = TASK_PENDING) (get_tasks_by_job db job_id)
                then (update_job_status db now job_id JOB_QUEUED None, True)
                else (update_job_status db now job_id JOB_ACTIVE None, True))
          else (db, False))"

definition cancel_job :: "Database \<Rightarrow> datetime \<Rightarrow> string \<Rightarrow> Database \<times> bool" where
  "cancel_job db now job_id =
     (case get_job db job_id of
        None \<Rightarrow> (db, False)
      | Some job \<Rightarrow> (update_job_status db now job_id JOB_CANCELLED None, True))"

text \<open>The loop of \<^verbatim>\<open>retry_job\<close> over the tasks of the job, read before the loop.\<close>

definition retry_task_of_job :: "Database \<Rightarrow> Task \<Rightarrow> Database" where
  "retry_task_of_job db task =
     (if t_status task = TASK_FAILED
      then update_task db (task\<lparr>t_status := TASK_PENDING, t_assigned_worker := None,
                                t_error_message := None, t_exit_code := None\<rparr>)
      else db)"

definition retry_job :: "Database \<Rightarrow> string \<Rightarrow> Database \<times> bool" where
  "retry_job db job_id =
     (case get_job db job_id of
        None \<Rightarrow> (db, False)
      | Some job \<Rightarrow>
          if j_status job \<noteq> JOB_FAILED then (db, False)
          else
            (let db1 = foldl retry_task_of_job db (get_tasks_by_job db job_id)
             in (update_job db1 (job\<lparr>j_status := JOB_QUEUED, j_task_failed := 0,
                                     j_error_message := None, j_finished_at := None\<rparr>),
                 True)))"

section \<open>The API surface (server/main.py)\<close>

text \<open>
  Every endpoint takes the store and returns the store it leaves behind together with its
  response: \<open>Inl\<close> for a raised exception, \<open>Inr\<close> for the returned value. The clock value
  \<open>now\<close> and fresh identifiers are arguments. Events, log files and the removal of rendered
  files touch nothing in the store and are left out.
\<close>

type_synonym 'a response = "Database \<times> (error + 'a)"

fun error_text :: "error \<Rightarrow> string" where
  "error_text IntegrityError = ''UNIQUE constraint failed''"
| "error_text (PluginError m) = m"
| "error_text (HTTPException c d) = d"

subsection \<open>Jobs\<close>

fun add_tasks :: "Database \<Rightarrow> Task list \<Rightarrow> Database \<times> error option" where
  "add_tasks db [] = (db, None)"
| "add_tasks db (task # rest) =
     (case add_task db task of
        Inl e \<Rightarrow> (db, Some e)
      | Inr db' \<Rightarrow> add_tasks db' rest)"

definition submit_job ::
  "registry \<Rightarrow> Database \<Rightarrow> string \<Rightarrow> datetime \<Rightarrow> JobSubmission \<Rightarrow> Job response" where
  "submit_job plugins db new_id now submission =
     (case plugins (s_plugin submission) of
        None \<Rightarrow> (db, Inl (HTTPException 400 (''Unknown plugin: '' @ s_plugin submission)))
      | Some plugin \<Rightarrow>
          (case validate plugin (s_plugin_data submission) of
             (valid, err) \<Rightarrow>
               if \<not> valid
               then (db, Inl (HTTPException 400 (''Plugin validation failed: ''
                       @ (case err of None \<Rightarrow> ''None'' | Some m \<Rightarrow> m))))
               else
                 (let job = new_Job new_id (s_name submission) (s_plugin submission)
                        (s_priority submission) (s_pool submission)
                        (s_plugin_data submission) (s_dependent_on submission)
                        (s_metadata submission) now
                  in case add_job db job of
                       Inl e \<Rightarrow> (db, Inl e)
                     | Inr db1 \<Rightarrow>
                         (case create_tasks plugin job of
                            Inl e \<Rightarrow>
                              (delete_job db1 (j_id job),
                               Inl (HTTPException 500
                                      (''Failed to create tasks: '' @ error_text e)))
                          | Inr ts \<Rightarrow>
                              (case add_tasks db1 ts of
                                 (db2, Some e) \<Rightarrow>
                                   (delete_job db2 (j_id job),
                                    Inl (HTTPException 500
                                           (''Failed to create tasks: '' @ error_text e)))
                               | (db2, None) \<Rightarrow>
                                   (let job' = job\<lparr>j_task_total := int (length ts),
                                                   j_status := JOB_QUEUED\<rparr>
                                    in (update_job db2 job', Inr job')))))))"

definition suspend_job_endpoint :: "Database \<Rightarrow> datetime \<Rightarrow> string \<Rightarrow> unit response" where
  "suspend_job_endpoint db now job_id =
     (case suspend_job db now job_id of
        (db', success) \<Rightarrow>
          if \<not> success then (db', Inl (HTTPException 400 ''Cannot suspend job''))
          else (db', Inr ()))"

definition resume_job_endpoint :: "Database \<Rightarrow> datetime \<Rightarrow> string \<Rightarrow> unit response" where
  "resume_job_endpoint db now job_id =
     (case resume_job db now job_id of
        (db', success) \<Rightarrow>
          if \<not> success then (db', Inl (HTTPException 400 ''Cannot resume job''))
          else (db', Inr ()))"

definition cancel_job_endpoint :: "Database \<Rightarrow> datetime \<Rightarrow> string \<Rightarrow> unit response" where
  "cancel_job_endpoint db now job_id =
     (case cancel_job db now job_id of
        (db', success) \<Rightarrow>
          if \<not> success then (db', Inl (HTTPException 400 ''Cannot cancel job''))
          else (db', Inr ()))"

definition retry_job_endpoint :: "Database \<Rightarrow> string \<Rightarrow> unit response" where
  "retry_job_endpoint db job_id =
     (case retry_job db job_id of
        (db', success) \<Rightarrow>
          if \<not> success then (db', Inl (HTTPException 400 ''Cannot retry job''))
          else (db', Inr ()))"

definition delete_job_endpoint :: "Database \<Rightarrow> string \<Rightarrow> unit response" where
  "delete_job_endpoint db job_id =
     (case get_job db job_id of
        None \<Rightarrow> (db, Inl (HTTPException 404 ''Job not found''))
      | Some job \<Rightarrow>
          if j_status job \<notin> {JOB_COMPLETED, JOB_CANCELLED, JOB_FAILED}
          then (db, Inl (HTTPException 400 ''Cannot delete active job''))
          else (delete_job db job_id, Inr ()))"

definition update_job_priority :: "Database \<Rightarrow> string \<Rightarrow> int \<Rightarrow> unit response" where
  "update_job_priority db job_id priority =
     (case get_job db job_id of
        None \<Rightarrow> (db, Inl (HTTPException 404 ''Job not found''))
      | Some job \<Rightarrow>
          if \<not> (0 \<le> priority \<and> priority \<le> 100)
          then (db, Inl (HTTPException 400 ''Priority must be 0-100''))
          else (update_job db (job\<lparr>j_priority := priority\<rparr>), Inr ()))"

subsection \<open>Tasks\<close>

definition task_started :: "Database \<Rightarrow> datetime \<Rightarrow> string \<Rightarrow> unit response" where
  "task_started db now task_id =
     (update_task_status db task_id TASK_RUNNING (Some now) None None None, Inr ())"

definition task_progress :: "Database \<Rightarrow> string \<Rightarrow> real \<Rightarrow> unit response" where
  "task_progress db task_id progress = (update_task_progress db task_id progress, Inr ())"

text \<open>
  The block that releases the worker of a task, written out in each of the four endpoints
  that use it: the worker named by the task object read at the start of the request becomes
  idle with no current task.
\<close>

definition release_worker :: "Database \<Rightarrow> Task \<Rightarrow> Database" where
  "release_worker db task =
     (case t_assigned_worker task of
        None \<Rightarrow> db
      | Some worker_id \<Rightarrow>
          if worker_id = [] then db
          else (case get_worker db worker_id of
                  None \<Rightarrow> db
                | Some worker \<Rightarrow>
                    update_worker db
                      (worker\<lparr>w_status := WORKER_IDLE, w_current_task := None\<rparr>)))"

definition completed_fraction :: "float_arith \<Rightarrow> nat \<Rightarrow> int \<Rightarrow> real" where
  "completed_fraction fp completed_count task_total =
     (if task_total > 0
      then float_mul fp (float_truediv fp (real completed_count) (real_of_int task_total)) 100
      else 0)"

definition task_completed ::
  "float_arith \<Rightarrow> Database \<Rightarrow> datetime \<Rightarrow> string \<Rightarrow> int \<Rightarrow> unit response" where
  "task_completed fp db now task_id exit_code =
     (case get_task db task_id of
        None \<Rightarrow> (db, Inl (HTTPException 404 ''Task not found''))
      | Some task \<Rightarrow>
          (let db1 = update_task_status db task_id TASK_COMPLETED None (Some now)
                       (Some exit_code) None;
               db2 = release_worker db1 task
           in case get_job db2 (t_job_id task) of
                None \<Rightarrow> (db2, Inr ())
              | Some job \<Rightarrow>
                  (let all_tasks = get_tasks_by_job db2 (t_job_id task);
                       completed_count = count_status TASK_COMPLETED all_tasks;
                       failed_count = count_status TASK_FAILED all_tasks;
                       job1 = job\<lparr>j_task_completed := int completed_count,
                                  j_task_failed := int failed_count,
                                  j_progress :=
                                    completed_fraction fp completed_count (j_task_total job)\<rparr>;
                       job2 =
                         (if int (completed_count + failed_count) \<ge> j_task_total job
                          then job1\<lparr>j_status := (if failed_count > 0 then JOB_FAILED
                                                    else JOB_COMPLETED),
                                     j_finished_at := Some now\<rparr>
                          else job1)
                   in (update_job db2 job2, Inr ()))))"

definition task_failed ::
  "float_arith \<Rightarrow> Database \<Rightarrow> datetime \<Rightarrow> string \<Rightarrow> int \<Rightarrow> string option \<Rightarrow> unit response" where
  "task_failed fp db now task_id exit_code error_message =
     (case get_task db task_id of
        None \<Rightarrow> (db, Inl (HTTPException 404 ''Task not found''))
      | Some task \<Rightarrow>
          (let db1 = update_task_status db task_id TASK_FAILED None (Some now)
                       (Some exit_code) error_message;
               db2 = release_worker db1 task
           in case get_job db2 (t_job_id task) of
                None \<Rightarrow> (db2, Inr ())
              | Some job \<Rightarrow>
                  (let all_tasks = get_tasks_by_job db2 (t_job_id task);
                       completed_count = count_status TASK_COMPLETED all_tasks;
                       failed_count = count_status TASK_FAILED all_tasks;
                       job1 = job\<lparr>j_task_completed := int completed_count,
                                  j_task_failed := int failed_count,
                                  j_progress :=
                                    completed_fraction fp completed_count (j_task_total job)\<rparr>;
                       job2 =
                         (if int (completed_count + failed_count) \<ge> j_task_total job
                          then job1\<lparr>j_status := JOB_FAILED, j_finished_at := Some now,
                                     j_error_message := error_message\<rparr>
                          else job1)
                   in (update_job db2 job2, Inr ()))))"

text \<open>
  \<^verbatim>\<open>retry_task\<close> first sets the row to pending and then writes back the task object it read
  before, whose status field still says failed.
\<close>

definition retry_task :: "Database \<Rightarrow> string \<Rightarrow> unit response" where
  "retry_task db task_id =
     (case get_task db task_id of
        None \<Rightarrow> (db, Inl (HTTPException 404 ''Task not found''))
      | Some task \<Rightarrow>
          if t_status task \<noteq> TASK_FAILED
          then (db, Inl (HTTPException 400 ''Can only retry failed tasks''))
          else
            (let db1 = update_task_status db task_id TASK_PENDING None None None None
             in (update_task db1
                   (task\<lparr>t_assigned_worker := None, t_started_at := None,
                         t_finished_at := None, t_progress := 0, t_exit_code := None,
                         t_error_message := None\<rparr>),
                 Inr ())))"

definition cancel_task :: "Database \<Rightarrow> string \<Rightarrow> unit response" where
  "cancel_task db task_id =
     (case get_task db task_id of
        None \<Rightarrow> (db, Inl (HTTPException 404 ''Task not found''))
      | Some task \<Rightarrow>
          if t_status task \<notin> {TASK_PENDING, TASK_ASSIGNED, TASK_RUNNING}
          then (db, Inl (HTTPException 400 ''Cannot cancel task in current state''))
          else (update_task_status (release_worker db task) task_id TASK_FAILED None None
                  None (Some ''Cancelled by user''),
                Inr ()))"

definition suspend_task :: "Database \<Rightarrow> string \<Rightarrow> unit response" where
  "suspend_task db task_id =
     (case get_task db task_id of
        None \<Rightarrow> (db, Inl (HTTPException 404 ''Task not found''))
      | Some task \<Rightarrow>
          if t_status task \<noteq> TASK_RUNNING
          then (db, Inl (HTTPException 400 ''Can only suspend running tasks''))
          else (update_task_status (release_worker db task) task_id TASK_FAILED None None
                  None (Some ''Suspended by user''),
                Inr ()))"

subsection \<open>Workers\<close>

record WorkerRegistration =
  r_id :: string
  r_name :: string
  r_hostname :: string
  r_ip_address :: string
  r_pools :: "string list option"
  r_capabilities :: "string list option"
  r_cpu_cores :: "int option"
  r_memory_total :: "int option"
  r_version :: "string option"

definition register_worker :: "Database \<Rightarrow> datetime \<Rightarrow> WorkerRegistration \<Rightarrow> string response"
  where
  "register_worker db now data =
     (let worker =
            \<lparr>w_id = r_id data, w_name = r_name data, w_hostname = r_hostname data,
             w_ip_address = r_ip_address data, w_status = WORKER_IDLE,
             w_current_task = None,
             w_pools = (case r_pools data of None \<Rightarrow> [''default''] | Some v \<Rightarrow> v),
             w_capabilities = (case r_capabilities data of None \<Rightarrow> [] | Some v \<Rightarrow> v),
             w_cpu_cores = (case r_cpu_cores data of None \<Rightarrow> 0 | Some v \<Rightarrow> v),
             w_cpu_usage = 0,
             w_memory_total = (case r_memory_total data of None \<Rightarrow> 0 | Some v \<Rightarrow> v),
             w_memory_used = 0, w_last_heartbeat = Some now,
             w_version = (case r_version data of None \<Rightarrow> [] | Some v \<Rightarrow> v)\<rparr>
      in (upsert_worker db worker, Inr (w_id worker)))"

definition worker_heartbeat ::
  "Database \<Rightarrow> datetime \<Rightarrow> string \<Rightarrow> Heartbeat \<Rightarrow> unit response" where
  "worker_heartbeat db now worker_id data =
     (case get_worker db worker_id of
        None \<Rightarrow> (db, Inl (HTTPException 404 ''Worker not found, please re-register''))
      | Some worker \<Rightarrow> (update_worker_heartbeat db now worker_id data, Inr ()))"

definition request_task ::
  "Database \<Rightarrow> datetime \<Rightarrow> string \<Rightarrow> (Task \<times> Job option) option response" where
  "request_task db now worker_id =
     (case get_worker db worker_id of
        None \<Rightarrow> (db, Inl (HTTPException 404 ''Worker not found''))
      | Some worker \<Rightarrow>
          if w_status worker \<noteq> WORKER_IDLE then (db, Inr None)
          else
            (case get_next_task_for_worker db worker of
               None \<Rightarrow> (db, Inr None)
             | Some task \<Rightarrow>
                 (let task' = task\<lparr>t_status := TASK_ASSIGNED,
                                    t_assigned_worker := Some worker_id\<rparr>;
                      db1 = update_task db task';
                      db2 = update_worker db1
                              (worker\<lparr>w_status := WORKER_BUSY,
                                      w_current_task := Some (t_id task')\<rparr>)
                  in case get_job db2 (t_job_id task') of
                       None \<Rightarrow> (db2, Inr (Some (task', None)))
                     | Some job \<Rightarrow>
                         if j_status job = JOB_QUEUED
                         then (let job' = job\<lparr>j_status := JOB_ACTIVE,
                                               j_started_at := Some now\<rparr>
                               in (update_job db2 job', Inr (Some (task', Some job'))))
                         else (db2, Inr (Some (task', Some job))))))"

definition disable_worker :: "Database \<Rightarrow> string \<Rightarrow> unit response" where
  "disable_worker db worker_id =
     (case get_worker db worker_id of
        None \<Rightarrow> (db, Inl (HTTPException 404 ''Worker not found''))
      | Some worker \<Rightarrow> (update_worker db (worker\<lparr>w_status := WORKER_DISABLED\<rparr>), Inr ()))"

definition enable_worker :: "Database \<Rightarrow> string \<Rightarrow> unit response" where
  "enable_worker db worker_id =
     (case get_worker db worker_id of
        None \<Rightarrow> (db, Inl (HTTPException 404 ''Worker not found''))
      | Some worker \<Rightarrow> (update_worker db (worker\<lparr>w_status := WORKER_IDLE\<rparr>), Inr ()))"

definition delete_worker_endpoint :: "Database \<Rightarrow> string \<Rightarrow> unit response" where
  "delete_worker_endpoint db worker_id =
     (case get_worker db worker_id of
        None \<Rightarrow> (db, Inl (HTTPException 404 ''Worker not found''))
      | Some worker \<Rightarrow>
          if w_status worker \<notin> {WORKER_OFFLINE, WORKER_DISABLED}
          then (db, Inl (HTTPException 400 ''Can only delete offline or disabled workers''))
          else (delete_worker db worker_id, Inr ()))"

section \<open>Properties of the coordinator\<close>

subsection \<open>Example rows and stores\<close>

text \<open>Rows with every field written out, used to run the operations on concrete stores.\<close>

definition example_job :: "string \<Rightarrow> string \<Rightarrow> JobStatus \<Rightarrow> string list \<Rightarrow> Job" where
  "example_job ident plugin status deps =
     (new_Job ident ''render'' plugin 50 ''default'' [] deps [] 0)\<lparr>j_status := status\<rparr>"

definition example_task :: "string \<Rightarrow> string \<Rightarrow> int \<Rightarrow> TaskStatus \<Rightarrow> string option \<Rightarrow> Task" where
  "example_task ident job_id idx status worker =
     \<lparr>t_id = ident, t_job_id = job_id, t_index = idx, t_status = status, t_progress = 0,
      t_command = [], t_working_dir = None, t_environment = [], t_frame_start = None,
      t_frame_end = None, t_metadata = [], t_assigned_worker = worker, t_started_at = None,
      t_finished_at = None, t_exit_code = None, t_error_message = None, t_log_path = None\<rparr>"

definition example_worker ::
  "string \<Rightarrow> WorkerStatus \<Rightarrow> string option \<Rightarrow> string list \<Rightarrow> datetime \<Rightarrow> Worker" where
  "example_worker ident status task caps last_heartbeat =
     \<lparr>w_id = ident, w_name = ident, w_hostname = ''host'', w_ip_address = ''10.0.0.1'',
      w_status = status, w_current_task = task, w_pools = [''default''],
      w_capabilities = caps, w_cpu_cores = 8, w_cpu_usage = 0, w_memory_total = 0,
      w_memory_used = 0, w_last_heartbeat = Some last_heartbeat, w_version = ''1.0.0''\<rparr>"

text \<open>The task a pull hands out, if any.\<close>

definition returned_task :: "(Task \<times> Job option) option response \<Rightarrow> Task option" where
  "returned_task r = (case snd r of Inr (Some (t, j)) \<Rightarrow> Some t | _ \<Rightarrow> None)"

text \<open>A queued job that waits on a job id nobody has, one pending task, one idle worker.\<close>

definition missing_dependency_db :: Database where
  "missing_dependency_db =
     \<lparr>jobs = [example_job ''j1'' ''ffmpeg'' JOB_QUEUED [''missing'']],
      tasks = [example_task ''t1'' ''j1'' 0 TASK_PENDING None],
      workers = [example_worker ''w1'' WORKER_IDLE None [] 0]\<rparr>"

text \<open>A queued After Effects job and an idle worker that declares only \<^verbatim>\<open>ffmpeg\<close>.\<close>

definition other_plugin_db :: Database where
  "other_plugin_db =
     \<lparr>jobs = [example_job ''j1'' ''aftereffects'' JOB_QUEUED []],
      tasks = [example_task ''t1'' ''j1'' 0 TASK_PENDING None],
      workers = [example_worker ''w1'' WORKER_IDLE None [''ffmpeg''] 0]\<rparr>"

text \<open>The store right after a pull: worker \<^verbatim>\<open>w1\<close> holds task \<^verbatim>\<open>t1\<close>.\<close>

definition busy_db :: Database where
  "busy_db =
     \<lparr>jobs = [example_job ''j1'' ''ffmpeg'' JOB_ACTIVE []],
      tasks = [example_task ''t1'' ''j1'' 0 TASK_ASSIGNED (Some ''w1'')],
      workers = [example_worker ''w1'' WORKER_BUSY (Some ''t1'') [] 0]\<rparr>"


text \<open>A finished job.\<close>

definition completed_db :: Database where
  "completed_db =
     \<lparr>jobs = [example_job ''j1'' ''ffmpeg'' JOB_COMPLETED []],
      tasks = [example_task ''t1'' ''j1'' 0 TASK_COMPLETED (Some ''w1'')],
      workers = [example_worker ''w1'' WORKER_IDLE None [] 0]\<rparr>"

text \<open>
  An active job with two tasks, one completed and one failed (as after the user suspended
  the second task), and a scheduler without plugins.
\<close>

definition partly_failed_db :: Database where
  "partly_failed_db =
     \<lparr>jobs = [(example_job ''j1'' ''ffmpeg'' JOB_ACTIVE [])\<lparr>j_task_total := 2\<rparr>],
      tasks = [example_task ''t1'' ''j1'' 0 TASK_COMPLETED (Some ''w1''),
               example_task ''t2'' ''j1'' 1 TASK_FAILED (Some ''w1'')],
      workers = [example_worker ''w1'' WORKER_IDLE None [] 0]\<rparr>"

definition no_plugins :: registry where
  "no_plugins = (\<lambda>name. None)"

definition uuid_example :: "nat \<Rightarrow> string" where
  "uuid_example n = ''follow-up-'' @ str_nat n"

text \<open>An active job whose two tasks have both failed.\<close>

definition all_failed_db :: Database where
  "all_failed_db =
     \<lparr>jobs = [(example_job ''j1'' ''ffmpeg'' JOB_ACTIVE [])\<lparr>j_task_total := 2\<rparr>],
      tasks = [example_task ''t1'' ''j1'' 0 TASK_FAILED (Some ''w1''),
               example_task ''t2'' ''j1'' 1 TASK_FAILED (Some ''w1'')],
      workers = [example_worker ''w1'' WORKER_IDLE None [] 0]\<rparr>"

subsection \<open>Submissions\<close>

text \<open>The status code of the error a response carries, if it is one.\<close>

definition response_status :: "'a response \<Rightarrow> nat option" where
  "response_status r = (case snd r of Inl e \<Rightarrow> Some (status_code e) | Inr v \<Rightarrow> None)"

text \<open>
  The \<^verbatim>\<open>try\<close> block of \<^verbatim>\<open>submit_job\<close> raises: either \<^verbatim>\<open>create_tasks\<close> does, or one of the
  inserts of its tasks does (the job row is already in the store then).
\<close>

definition partition_raises :: "RenderPlugin \<Rightarrow> Database \<Rightarrow> Job \<Rightarrow> bool" where
  "partition_raises plugin db job =
     (case create_tasks plugin job of
        Inl e \<Rightarrow> True
      | Inr ts \<Rightarrow> snd (add_tasks (db\<lparr>jobs := jobs db @ [job]\<rparr>) ts) \<noteq> None)"

definition submitted_job :: "string \<Rightarrow> datetime \<Rightarrow> JobSubmission \<Rightarrow> Job" where
  "submitted_job new_id now submission =
     new_Job new_id (s_name submission) (s_plugin submission) (s_priority submission)
       (s_pool submission) (s_plugin_data submission) (s_dependent_on submission)
       (s_metadata submission) now"

text \<open>
  Three plugins: one that wants a non-empty parameter mapping and makes one task per job,
  one whose partitioner raises, and one whose partitioner returns two tasks with the same
  id, so that the second insert raises.
\<close>

definition single_task_plugin :: RenderPlugin where
  "single_task_plugin =
     \<lparr>validate = (\<lambda>plugin_data. if plugin_data = [] then (False, Some ''no input'')
                                  else (True, None)),
      create_tasks = (\<lambda>job. Inr [example_task (''task-'' @ j_id job) (j_id job) 0
                                     TASK_PENDING None]),
      get_encoding_jobs = None\<rparr>"

definition raising_plugin :: RenderPlugin where
  "raising_plugin =
     \<lparr>validate = (\<lambda>plugin_data. (True, None)),
      create_tasks = (\<lambda>job. Inl (PluginError ''no frames'')),
      get_encoding_jobs = None\<rparr>"

definition duplicate_plugin :: RenderPlugin where
  "duplicate_plugin =
     \<lparr>validate = (\<lambda>plugin_data. (True, None)),
      create_tasks = (\<lambda>job. Inr [example_task ''dup'' (j_id job) 0 TASK_PENDING None,
                                   example_task ''dup'' (j_id job) 1 TASK_PENDING None]),
      get_encoding_jobs = None\<rparr>"

definition example_registry :: registry where
  "example_registry name =
     (if name = ''ffmpeg'' then Some single_task_plugin
      else if name = ''raising'' then Some raising_plugin
      else if name = ''duplicate'' then Some duplicate_plugin
      else None)"

definition example_submission :: "string \<Rightarrow> payload \<Rightarrow> JobSubmission" where
  "example_submission plugin plugin_data =
     \<lparr>s_name = ''shot 12'', s_plugin = plugin, s_priority = 50, s_pool = ''default'',
      s_plugin_data = plugin_data, s_dependent_on = [], s_metadata = []\<rparr>"

subsection \<open>The timeout sweep\<close>

text \<open>
  The guard of the sweep for one worker: not offline, a heartbeat on record, and more than
  the timeout since. \<open>requeued\<close> is what the sweep writes into a running task it takes back.
\<close>

definition timed_out :: "datetime \<Rightarrow> Worker \<Rightarrow> bool" where
  "timed_out now worker =
     (w_status worker \<noteq> WORKER_OFFLINE
      \<and> (case w_last_heartbeat worker of
           None \<Rightarrow> False
         | Some last_heartbeat \<Rightarrow> now - last_heartbeat > timedelta_seconds worker_timeout))"

definition requeued :: "Task \<Rightarrow> Task" where
  "requeued task = task\<lparr>t_status := TASK_PENDING, t_assigned_worker := None\<rparr>"

text \<open>
  Worker \<^verbatim>\<open>w1\<close> runs task \<^verbatim>\<open>t1\<close> and was last heard of at time 0; worker \<^verbatim>\<open>w2\<close> is idle and
  was last heard of one microsecond later.
\<close>

definition silent_db :: Database where
  "silent_db =
     \<lparr>jobs = [example_job ''j1'' ''ffmpeg'' JOB_ACTIVE []],
      tasks = [example_task ''t1'' ''j1'' 0 TASK_RUNNING (Some ''w1'')],
      workers = [example_worker ''w1'' WORKER_BUSY (Some ''t1'') [] 0,
                 example_worker ''w2'' WORKER_IDLE None [] 1]\<rparr>"

subsection \<open>Retrying a job\<close>

text \<open>What \<^verbatim>\<open>retry_job\<close> writes into a failed task.\<close>

definition retried :: "Task \<Rightarrow> Task" where
  "retried task = task\<lparr>t_status := TASK_PENDING, t_assigned_worker := None,
                        t_error_message := None, t_exit_code := None\<rparr>"

text \<open>
  A plugin that cuts every job into two tasks, and a run of the coordinator through its
  endpoints: a job is submitted, worker \<^verbatim>\<open>w1\<close> registers, pulls the first task and completes
  it, pulls the second task and fails it (the job is failed now, half done), and then a
  late start report for the first task arrives.
\<close>

definition two_task_plugin :: RenderPlugin where
  "two_task_plugin =
     \<lparr>validate = (\<lambda>plugin_data. (True, None)),
      create_tasks = (\<lambda>job. Inr [example_task ''t1'' (j_id job) 0 TASK_PENDING None,
                                   example_task ''t2'' (j_id job) 1 TASK_PENDING None]),
      get_encoding_jobs = None\<rparr>"

definition two_task_registry :: registry where
  "two_task_registry name = (if name = ''ffmpeg'' then Some two_task_plugin else None)"

definition example_registration :: WorkerRegistration where
  "example_registration =
     \<lparr>r_id = ''w1'', r_name = ''node 1'', r_hostname = ''host'', r_ip_address = ''10.0.0.1'',
      r_pools = None, r_capabilities = None, r_cpu_cores = None, r_memory_total = None,
      r_version = None\<rparr>"

text \<open>
  The float operations of the examples. In each example every float result is a number that
  a double holds exactly (0, 50 or 100), so the rounding operations of the interpreter return
  there what the operations on the reals return.
\<close>

definition unrounded :: float_arith where
  "unrounded = \<lparr>float_add = (+), float_mul = (*), float_truediv = (/)\<rparr>"

definition failed_after_half_db :: Database where
  "failed_after_half_db =
     (let db1 = fst (submit_job two_task_registry empty_db ''j1'' 1
                       (example_submission ''ffmpeg'' []));
          db2 = fst (register_worker db1 2 example_registration);
          db3 = fst (request_task db2 3 ''w1'');
          db4 = fst (task_started db3 4 ''t1'');
          db5 = fst (task_completed unrounded db4 5 ''t1'' 0);
          db6 = fst (request_task db5 6 ''w1'');
          db7 = fst (task_started db6 7 ''t2'')
      in fst (task_failed unrounded db7 8 ''t2'' 1 (Some ''render crashed'')))"

definition late_start_db :: Database where
  "late_start_db = fst (task_started failed_after_half_db 9 ''t1'')"

subsection \<open>Who holds which task\<close>

text \<open>
  The two halves of the assignment invariant, row by row: a task that is assigned or
  running names a worker that is busy on it, and a busy worker names a task that names it
  back.
\<close>

definition task_holder_ok :: "Database \<Rightarrow> Task \<Rightarrow> bool" where
  "task_holder_ok db t =
     (if t_status t \<in> {TASK_ASSIGNED, TASK_RUNNING}
      then (case t_assigned_worker t of
              None \<Rightarrow> False
            | Some worker_id \<Rightarrow>
                (case get_worker db worker_id of
                   None \<Rightarrow> False
                 | Some w \<Rightarrow> w_status w = WORKER_BUSY \<and> w_current_task w = Some (t_id t)))
      else True)"

definition worker_task_ok :: "Database \<Rightarrow> Worker \<Rightarrow> bool" where
  "worker_task_ok db w =
     (if w_status w = WORKER_BUSY
      then (case w_current_task w of
              None \<Rightarrow> False
            | Some task_id \<Rightarrow>
                (case get_task db task_id of
                   None \<Rightarrow> False
                 | Some t \<Rightarrow> t_assigned_worker t = Some (w_id w)))
      else True)"

definition assignment_invariant :: "Database \<Rightarrow> bool" where
  "assignment_invariant db =
     (list_all (task_holder_ok db) (tasks db) \<and> list_all (worker_task_ok db) (workers db))"









subsection \<open>Runs of the coordinator\<close>

text \<open>
  Every operation of the coordinator that writes to the store, with its arguments: the
  endpoints of the API and one iteration of the scheduler loop. A run applies a list of
  them in order; the responses are dropped.
\<close>

datatype operation =
    Submit string datetime JobSubmission
  | SuspendJob datetime string
  | ResumeJob datetime string
  | CancelJob datetime string
  | RetryJob string
  | DeleteJob string
  | UpdateJobPriority string int
  | TaskStarted datetime string
  | TaskProgress string real
  | TaskCompleted datetime string int
  | TaskFailed datetime string int "string option"
  | RetryTask string
  | CancelTask string
  | SuspendTask string
  | RegisterWorker datetime WorkerRegistration
  | WorkerHeartbeat datetime string Heartbeat
  | RequestTask datetime string
  | DisableWorker string
  | EnableWorker string
  | DeleteWorker string
  | SchedulerTick "nat \<Rightarrow> string" datetime

fun apply_operation :: "registry \<Rightarrow> float_arith \<Rightarrow> Database \<Rightarrow> operation \<Rightarrow> Database" where
  "apply_operation plugins fp db (Submit new_id now submission) =
     fst (submit_job plugins db new_id now submission)"
| "apply_operation plugins fp db (SuspendJob now job_id) = fst (suspend_job_endpoint db now job_id)"
| "apply_operation plugins fp db (ResumeJob now job_id) = fst (resume_job_endpoint db now job_id)"
| "apply_operation plugins fp db (CancelJob now job_id) = fst (cancel_job_endpoint db now job_id)"
| "apply_operation plugins fp db (RetryJob job_id) = fst (retry_job_endpoint db job_id)"
| "apply_operation plugins fp db (DeleteJob job_id) = fst (delete_job_endpoint db job_id)"
| "apply_operation plugins fp db (UpdateJobPriority job_id priority) =
     fst (update_job_priority db job_id priority)"
| "apply_operation plugins fp db (TaskStarted now task_id) = fst (task_started db now task_id)"
| "apply_operation plugins fp db (TaskProgress task_id progress) =
     fst (task_progress db task_id progress)"
| "apply_operation plugins fp db (TaskCompleted now task_id exit_code) =
     fst (task_completed fp db now task_id exit_code)"
| "apply_operation plugins fp db (TaskFailed now task_id exit_code error_message) =
     fst (task_failed fp db now task_id exit_code error_message)"
| "apply_operation plugins fp db (RetryTask task_id) = fst (retry_task db task_id)"
| "apply_operation plugins fp db (CancelTask task_id) = fst (cancel_task db task_id)"
| "apply_operation plugins fp db (SuspendTask task_id) = fst (suspend_task db task_id)"
| "apply_operation plugins fp db (RegisterWorker now data) = fst (register_worker db now data)"
| "apply_operation plugins fp db (WorkerHeartbeat now worker_id data) =
     fst (worker_heartbeat db now worker_id data)"
| "apply_operation plugins fp db (RequestTask now worker_id) = fst (request_task db now worker_id)"
| "apply_operation plugins fp db (DisableWorker worker_id) = fst (disable_worker db worker_id)"
| "apply_operation plugins fp db (EnableWorker worker_id) = fst (enable_worker db worker_id)"
| "apply_operation plugins fp db (DeleteWorker worker_id) =
     fst (delete_worker_endpoint db worker_id)"
| "apply_operation plugins fp db (SchedulerTick uuid4 now) = scheduler_tick plugins fp uuid4 now db"

definition run :: "registry \<Rightarrow> float_arith \<Rightarrow> Database \<Rightarrow> operation list \<Rightarrow> Database" where
  "run plugins fp db ops = foldl (apply_operation plugins fp) db ops"

text \<open>
  What is said of a follow-up job with id \<open>f\<close>: no task row carries its id; its row is
  there and pending. \<open>moves_job\<close> picks the two requests of a user that take a pending job
  out of pending, \<open>resubmits\<close> a submission under the id \<open>f\<close>. The last definition is
  the contract of \<^verbatim>\<open>create_tasks\<close>: the tasks of a job carry its id.
\<close>

definition task_jobs :: "Database \<Rightarrow> string set" where
  "task_jobs db = set (map t_job_id (tasks db))"

definition no_tasks_of :: "Database \<Rightarrow> string \<Rightarrow> bool" where
  "no_tasks_of db f = list_all (\<lambda>t. t_job_id t \<noteq> f) (tasks db)"

definition pending_job :: "Database \<Rightarrow> string \<Rightarrow> bool" where
  "pending_job db f =
     (list_ex (\<lambda>j. j_id j = f) (jobs db)
      \<and> list_all (\<lambda>j. if j_id j = f then j_status j = JOB_PENDING else True) (jobs db))"

definition pending_without_tasks :: "Database \<Rightarrow> string \<Rightarrow> bool" where
  "pending_without_tasks db f = (pending_job db f \<and> no_tasks_of db f)"

fun moves_job :: "string \<Rightarrow> operation \<Rightarrow> bool" where
  "moves_job f (SuspendJob now job_id) = (job_id = f)"
| "moves_job f (CancelJob now job_id) = (job_id = f)"
| "moves_job f other = False"

fun resubmits :: "string \<Rightarrow> operation \<Rightarrow> bool" where
  "resubmits f (Submit new_id now submission) = (new_id = f)"
| "resubmits f other = False"

definition partitions_own_job :: "registry \<Rightarrow> bool" where
  "partitions_own_job plugins =
     (\<forall>name plugin job ts. plugins name = Some plugin \<and> create_tasks plugin job = Inr ts
        \<longrightarrow> (\<forall>t \<in> set ts. t_job_id t = j_id job))"

text \<open>
  A render plugin that asks for one encoding job when a job of its own completes, and the
  store in which its job \<^verbatim>\<open>j1\<close> has just had its only task completed.
\<close>

definition render_plugin :: RenderPlugin where
  "render_plugin =
     \<lparr>validate = (\<lambda>plugin_data. (True, None)),
      create_tasks = (\<lambda>job. Inr [example_task (''task-'' @ j_id job) (j_id job) 0
                                     TASK_PENDING None]),
      get_encoding_jobs =
        Some (\<lambda>job. Inr [\<lparr>jd_name = None, jd_plugin = Some ''ffmpeg'',
                            jd_priority = None, jd_pool = None, jd_plugin_data = None,
                            jd_dependent_on = Some [j_id job], jd_metadata = None\<rparr>])\<rparr>"

definition render_registry :: registry where
  "render_registry name =
     (if name = ''aftereffects'' then Some render_plugin
      else if name = ''ffmpeg'' then Some single_task_plugin
      else None)"

definition rendered_db :: Database where
  "rendered_db =
     \<lparr>jobs = [(example_job ''j1'' ''aftereffects'' JOB_ACTIVE [])\<lparr>j_task_total := 1\<rparr>],
      tasks = [example_task ''t1'' ''j1'' 0 TASK_COMPLETED (Some ''w1'')],
      workers = [example_worker ''w1'' WORKER_IDLE None [] 0]\<rparr>"

definition follow_up_db :: Database where
  "follow_up_db = scheduler_tick render_registry unrounded uuid_example 10 rendered_db"

text \<open>
  A plugin that breaks the contract of \<^verbatim>\<open>create_tasks\<close>: the task it returns carries the id
  of the follow-up job, not that of the job it is given.
\<close>

definition misfiling_plugin :: RenderPlugin where
  "misfiling_plugin =
     \<lparr>validate = (\<lambda>plugin_data. (True, None)),
      create_tasks = (\<lambda>job. Inr [example_task (''task-'' @ j_id job) ''follow-up-0'' 0
                                     TASK_PENDING None]),
      get_encoding_jobs = None\<rparr>"

definition misfiling_registry :: registry where
  "misfiling_registry name = (if name = ''ffmpeg'' then Some misfiling_plugin else None)"

text \<open>
  A run on the store after that pass which neither suspends nor cancels the follow-up job:
  another job is submitted, pulled, started and completed, the scheduler makes a pass, and
  the follow-up job is the target of a resume, a retry, a delete and a change of priority.
\<close>

definition quiet_run :: "operation list" where
  "quiet_run =
     [Submit ''j2'' 12 (example_submission ''ffmpeg'' [(''input'', ''a.mov'')]),
      RequestTask 13 ''w1'',
      TaskStarted 14 ''task-j2'',
      TaskCompleted 15 ''task-j2'' 0,
      SchedulerTick uuid_example 16,
      ResumeJob 17 ''follow-up-0'',
      RetryJob ''follow-up-0'',
      DeleteJob ''follow-up-0'',
      UpdateJobPriority ''follow-up-0'' 90]"
section \<open>Lemmas about the store\<close>

lemma find_map_update:
  assumes "\<And>r. key r = k' \<Longrightarrow> key (f r) = k'"
  shows "find (\<lambda>r. key r = k) (map (\<lambda>r. if key r = k' then f r else r) xs)
       = map_option (\<lambda>r. if key r = k' then f r else r) (find (\<lambda>r. key r = k) xs)"
  using assms by (induction xs) auto

lemma find_distinct_key:
  "distinct (map key xs) \<Longrightarrow> x \<in> set xs \<Longrightarrow> find (\<lambda>r. key r = key x) xs = Some x"
  by (induction xs) (auto simp: image_iff)

lemma find_append_present:
  "find P xs = Some r \<Longrightarrow> find P (xs @ ys) = Some r"
  by (induction xs) auto

lemma get_job_update_job:
  "get_job (update_job db job) k
   = map_option (\<lambda>r. if j_id r = j_id job
        then job\<lparr>j_submitted_by := j_submitted_by r, j_submitted_at := j_submitted_at r\<rparr>
        else r) (get_job db k)"
  by (simp add: get_job_def update_job_def find_map_update [where key = j_id])

lemma tasks_update_job [simp]: "tasks (update_job db job) = tasks db"
  by (simp add: update_job_def)

lemma workers_update_job [simp]: "workers (update_job db job) = workers db"
  by (simp add: update_job_def)

subsection \<open>Follow-up jobs and the aggregation pass\<close>

lemma add_job_Inr:
  "add_job db job = Inr db' \<Longrightarrow>
     jobs db' = jobs db @ [job] \<and> tasks db' = tasks db \<and> workers db' = workers db
     \<and> get_job db (j_id job) = None"
  by (auto simp: add_job_def split: if_splits)

lemma add_follow_up_jobs_frame:
  "tasks (fst (add_follow_up_jobs uuid4 now job ds (db, n))) = tasks db
   \<and> workers (fst (add_follow_up_jobs uuid4 now job ds (db, n))) = workers db
   \<and> (\<exists>new. jobs (fst (add_follow_up_jobs uuid4 now job ds (db, n))) = jobs db @ new
        \<and> (\<forall>j \<in> set new. j_status j = JOB_PENDING))"
proof (induction ds arbitrary: db n)
  case Nil
  show ?case by simp
next
  case (Cons d ds)
  show ?case
  proof (cases "add_job db (new_Job (uuid4 n)
            (case jd_name d of None \<Rightarrow> j_name job @ '' - Encode'' | Some v \<Rightarrow> v)
            (case jd_plugin d of None \<Rightarrow> ''ffmpeg'' | Some v \<Rightarrow> v)
            (case jd_priority d of None \<Rightarrow> j_priority job | Some v \<Rightarrow> v)
            (case jd_pool d of None \<Rightarrow> j_pool job | Some v \<Rightarrow> v)
            (case jd_plugin_data d of None \<Rightarrow> [] | Some v \<Rightarrow> v)
            (case jd_dependent_on d of None \<Rightarrow> [] | Some v \<Rightarrow> v)
            (case jd_metadata d of None \<Rightarrow> [] | Some v \<Rightarrow> v)
            now)")
    case (Inl e)
    then show ?thesis by simp
  next
    case (Inr db')
    from add_job_Inr [OF Inr] Cons.IH [of db' "Suc n"] Inr
    show ?thesis by (auto simp: new_Job_def)
  qed
qed

lemma create_follow_up_jobs_frame:
  "tasks (fst (create_follow_up_jobs plugins uuid4 now job (db, n))) = tasks db
   \<and> workers (fst (create_follow_up_jobs plugins uuid4 now job (db, n))) = workers db
   \<and> (\<exists>new. jobs (fst (create_follow_up_jobs plugins uuid4 now job (db, n))) = jobs db @ new
        \<and> (\<forall>j \<in> set new. j_status j = JOB_PENDING))"
  using add_follow_up_jobs_frame [of uuid4 now job _ db n]
  by (auto simp: create_follow_up_jobs_def split: option.splits sum.splits)


lemma get_job_create_follow_up_jobs:
  assumes "get_job db k = Some r"
  shows "get_job (fst (create_follow_up_jobs plugins uuid4 now job (db, n))) k = Some r"
proof -
  obtain new where "jobs (fst (create_follow_up_jobs plugins uuid4 now job (db, n)))
      = jobs db @ new"
    using create_follow_up_jobs_frame [of plugins uuid4 now job db n] by blast
  then show ?thesis
    using assms by (simp add: get_job_def find_append_present)
qed

lemma get_tasks_by_job_tasks:
  "tasks db' = tasks db \<Longrightarrow> get_tasks_by_job db' k = get_tasks_by_job db k"
  by (simp add: get_tasks_by_job_def)

lemma update_one_job_progress_tasks:
  "tasks (fst (update_one_job_progress plugins fp uuid4 now (db, n) job)) = tasks db"
  using create_follow_up_jobs_frame [of plugins uuid4 now _ db n]
  by (simp add: update_one_job_progress_def Let_def)

lemma update_one_job_progress_other:
  assumes "k \<noteq> j_id job" and "get_job db k = Some r"
  shows "get_job (fst (update_one_job_progress plugins fp uuid4 now (db, n) job)) k = Some r"
proof -
  have r: "j_id r = k"
    using assms(2) by (auto simp: get_job_def find_Some_iff)
  show ?thesis
    using assms r get_job_create_follow_up_jobs [OF assms(2), of plugins uuid4 now _ n]
    by (simp add: update_one_job_progress_def Let_def get_job_update_job)
qed

lemma update_one_job_progress_failed:
  assumes row: "get_job db (j_id job) = Some job"
    and finished: "length (get_tasks_by_job db (j_id job))
        \<le> count_status TASK_COMPLETED (get_tasks_by_job db (j_id job))
          + count_status TASK_FAILED (get_tasks_by_job db (j_id job))"
    and failed: "count_status TASK_FAILED (get_tasks_by_job db (j_id job)) \<noteq> 0"
  shows "get_job (fst (update_one_job_progress plugins fp uuid4 now (db, n) job)) (j_id job)
    = Some (let ts = get_tasks_by_job db (j_id job);
                failed = count_status TASK_FAILED ts;
                job1 = job\<lparr>j_progress := float_truediv fp (task_progress_sum fp ts) (real (length ts)),
                           j_task_completed := int (count_status TASK_COMPLETED ts),
                           j_task_failed := int failed\<rparr>
            in if failed \<ge> length ts \<or> failed > max_task_retries
               then job1\<lparr>j_status := JOB_FAILED, j_finished_at := Some now,
                          j_error_message := Some (str_nat failed @ '' tasks failed'')\<rparr>
               else job1)"
proof -
  have ne: "get_tasks_by_job db (j_id job) \<noteq> []"
    using failed by (auto simp: count_status_def)
  show ?thesis
    using row finished failed ne
    by (simp add: update_one_job_progress_def Let_def get_job_update_job)
qed

lemma foldl_update_one_job_progress_tasks:
  "tasks (fst (foldl (update_one_job_progress plugins fp uuid4 now) st xs)) = tasks (fst st)"
proof (induction xs arbitrary: st)
  case Nil
  show ?case by simp
next
  case (Cons x xs)
  show ?case
    using Cons.IH [of "update_one_job_progress plugins fp uuid4 now st x"]
      update_one_job_progress_tasks [of plugins fp uuid4 now "fst st" "snd st" x]
    by simp
qed

lemma foldl_update_one_job_progress_other:
  assumes "k \<notin> j_id ` set xs" and "get_job (fst st) k = Some r"
  shows "get_job (fst (foldl (update_one_job_progress plugins fp uuid4 now) st xs)) k = Some r"
  using assms
proof (induction xs arbitrary: st)
  case Nil
  then show ?case by simp
next
  case (Cons x xs)
  have "get_job (fst (update_one_job_progress plugins fp uuid4 now st x)) k = Some r"
    using update_one_job_progress_other [of k x "fst st" r plugins fp uuid4 now "snd st"] Cons.prems
    by simp
  then show ?case
    using Cons.IH [of "update_one_job_progress plugins fp uuid4 now st x"] Cons.prems by simp
qed


lemma distinct_map_sort_key_filter:
  assumes "distinct (map key xs)"
  shows "distinct (map key (sort_key f (filter P xs)))"
proof -
  have "distinct (map key (filter P xs))"
    using assms by (rule distinct_map_filter)
  then show ?thesis
    by (simp add: distinct_map)
qed



lemma foldl_update_one_job_progress_own:
  assumes "distinct (map j_id xs)" and "job \<in> set xs"
    and "get_job (fst st) (j_id job) = Some job"
    and step: "\<And>db n. get_job db (j_id job) = Some job \<Longrightarrow> tasks db = tasks (fst st) \<Longrightarrow>
       get_job (fst (update_one_job_progress plugins fp uuid4 now (db, n) job)) (j_id job) = Some res"
  shows "get_job (fst (foldl (update_one_job_progress plugins fp uuid4 now) st xs)) (j_id job)
    = Some res"
  using assms
proof (induction xs arbitrary: st)
  case Nil
  then show ?case by simp
next
  case (Cons x xs)
  let ?st = "update_one_job_progress plugins fp uuid4 now st x"
  have st: "st = (fst st, snd st)"
    by simp
  have ts: "tasks (fst ?st) = tasks (fst st)"
    using update_one_job_progress_tasks [of plugins fp uuid4 now "fst st" "snd st" x] by simp
  have unfold: "foldl (update_one_job_progress plugins fp uuid4 now) st (x # xs)
      = foldl (update_one_job_progress plugins fp uuid4 now) ?st xs"
    by simp
  show ?case
  proof (cases "x = job")
    case True
    have fresh: "j_id job \<notin> j_id ` set xs"
      using Cons.prems(1) True by auto
    have "get_job (fst (update_one_job_progress plugins fp uuid4 now (fst st, snd st) job))
        (j_id job) = Some res"
      by (rule Cons.prems(4) [OF Cons.prems(3) refl])
    then have "get_job (fst ?st) (j_id job) = Some res"
      using True by simp
    then show ?thesis
      unfolding unfold by (rule foldl_update_one_job_progress_other [OF fresh])
  next
    case False
    then have mem: "job \<in> set xs"
      using Cons.prems(2) by simp
    have other: "j_id job \<noteq> j_id x"
    proof
      assume "j_id job = j_id x"
      then have "j_id x \<in> j_id ` set xs"
        using mem by (metis imageI)
      then show False
        using Cons.prems(1) by simp
    qed
    have "get_job (fst (update_one_job_progress plugins fp uuid4 now (fst st, snd st) x))
        (j_id job) = Some job"
      by (rule update_one_job_progress_other [OF other Cons.prems(3)])
    then have row: "get_job (fst ?st) (j_id job) = Some job"
      by simp
    have d: "distinct (map j_id xs)"
      using Cons.prems(1) by simp
    show ?thesis
      unfolding unfold
    proof (rule Cons.IH [OF d mem row])
      fix db n
      assume "get_job db (j_id job) = Some job" and "tasks db = tasks (fst ?st)"
      then show "get_job (fst (update_one_job_progress plugins fp uuid4 now (db, n) job))
          (j_id job) = Some res"
        using Cons.prems(4) [of db n] ts by simp
    qed
  qed
qed

lemma get_job_delete_job: "get_job (delete_job db k) k = None"
  by (simp add: get_job_def delete_job_def find_None_iff)

lemma tasks_delete_job: "t \<in> set (tasks (delete_job db k)) \<Longrightarrow> t_job_id t \<noteq> k"
  by (simp add: delete_job_def)

lemma get_worker_mark_worker_offline:
  "get_worker (mark_worker_offline db k') k
   = map_option (\<lambda>r. if w_id r = k' then r\<lparr>w_status := WORKER_OFFLINE, w_current_task := None\<rparr>
                      else r) (get_worker db k)"
  by (simp add: get_worker_def mark_worker_offline_def find_map_update [where key = w_id])

lemma tasks_mark_worker_offline [simp]: "tasks (mark_worker_offline db k) = tasks db"
  by (simp add: mark_worker_offline_def)

lemma workers_update_task [simp]: "workers (update_task db t) = workers db"
  by (simp add: update_task_def)

lemma get_worker_update_task [simp]: "get_worker (update_task db t) k = get_worker db k"
  by (simp add: get_worker_def)

lemma get_task_mark_worker_offline [simp]:
  "get_task (mark_worker_offline db k') k = get_task db k"
  by (simp add: get_task_def)

lemma get_task_update_task:
  "get_task (update_task db task) k
   = map_option (\<lambda>r. if t_id r = t_id task
        then r\<lparr>t_status := t_status task, t_progress := t_progress task,
               t_assigned_worker := t_assigned_worker task,
               t_started_at := t_started_at task, t_finished_at := t_finished_at task,
               t_exit_code := t_exit_code task, t_error_message := t_error_message task,
               t_log_path := t_log_path task\<rparr>
        else r) (get_task db k)"
  by (simp add: get_task_def update_task_def find_map_update [where key = t_id])

lemma get_task_id: "get_task db k = Some t \<Longrightarrow> t_id t = k"
  by (auto simp: get_task_def find_Some_iff)

lemma get_worker_id: "get_worker db k = Some w \<Longrightarrow> w_id w = k"
  by (auto simp: get_worker_def find_Some_iff)

lemma get_job_id: "get_job db k = Some j \<Longrightarrow> j_id j = k"
  by (auto simp: get_job_def find_Some_iff)

subsection \<open>The timeout sweep, key by key\<close>

lemma check_worker_timeout_not_timed_out:
  "\<not> timed_out now worker \<Longrightarrow> check_worker_timeout now db worker = db"
  by (auto simp: timed_out_def check_worker_timeout_def split: option.splits)

lemma get_worker_check_worker_timeout:
  "get_worker (check_worker_timeout now db x) k
   = (if timed_out now x \<and> k = w_id x
      then map_option (\<lambda>r. r\<lparr>w_status := WORKER_OFFLINE, w_current_task := None\<rparr>)
             (get_worker db k)
      else get_worker db k)"
proof (cases "timed_out now x")
  case False
  then show ?thesis by (simp add: check_worker_timeout_not_timed_out)
next
  case True
  have "get_worker db k = Some r \<Longrightarrow> w_id r = k" for r
    by (rule get_worker_id)
  then show ?thesis
    using True
    by (cases "get_worker db k")
      (auto simp: timed_out_def check_worker_timeout_def get_worker_mark_worker_offline
        split: option.splits)
qed

lemma get_task_requeue:
  assumes "get_task db k = Some t" and "get_task db k' = Some t'"
  shows "get_task (update_task db (t'\<lparr>t_status := TASK_PENDING, t_assigned_worker := None\<rparr>)) k
   = Some (if k = k' then requeued t else t)"
proof -
  have ids: "t_id t = k" "t_id t' = k'"
    using assms by (simp_all add: get_task_id)
  show ?thesis
  proof (cases "k = k'")
    case True
    then have "t' = t"
      using assms by simp
    then show ?thesis
      using assms(1) ids True by (simp add: get_task_update_task requeued_def)
  next
    case False
    then show ?thesis
      using assms(1) ids by (simp add: get_task_update_task)
  qed
qed

lemma get_task_check_worker_timeout:
  assumes "get_task db k = Some t"
  shows "get_task (check_worker_timeout now db x) k
   = Some (if timed_out now x \<and> w_current_task x = Some k \<and> k \<noteq> []
              \<and> t_status t = TASK_RUNNING
           then requeued t else t)"
proof (cases "timed_out now x")
  case False
  then show ?thesis
    using assms by (simp add: check_worker_timeout_not_timed_out)
next
  case True
  then obtain l where l: "w_status x \<noteq> WORKER_OFFLINE" "w_last_heartbeat x = Some l"
      "now - l > timedelta_seconds worker_timeout"
    by (auto simp: timed_out_def split: option.splits)
  show ?thesis
  proof (cases "w_current_task x")
    case None
    then show ?thesis
      using l assms by (simp add: check_worker_timeout_def)
  next
    case (Some k')
    show ?thesis
    proof (cases "k' = [] \<or> get_task db k' = None")
      case True
      then show ?thesis
        using l assms Some by (auto simp: check_worker_timeout_def)
    next
      case False
      then obtain t' where t': "get_task db k' = Some t'" and ne: "k' \<noteq> []"
        by auto
      show ?thesis
      proof (cases "t_status t' = TASK_RUNNING")
        case running: True
        have "get_task (check_worker_timeout now db x) k = Some (if k = k' then requeued t else t)"
          using l Some t' ne running get_task_requeue [OF assms t']
          by (simp add: check_worker_timeout_def)
        moreover have "k = k' \<Longrightarrow> t_status t = TASK_RUNNING"
          using assms t' running by simp
        ultimately show ?thesis
          using True Some ne by auto
      next
        case idle: False
        have "get_task (check_worker_timeout now db x) k = Some t"
          using l Some t' ne idle assms by (simp add: check_worker_timeout_def)
        moreover have "k = k' \<Longrightarrow> t_status t \<noteq> TASK_RUNNING"
          using assms t' idle by simp
        ultimately show ?thesis
          using Some by auto
      qed
    qed
  qed
qed

lemma foldl_check_worker_timeout_other:
  assumes "k \<notin> w_id ` set xs"
  shows "get_worker (foldl (check_worker_timeout now) db xs) k = get_worker db k"
  using assms
proof (induction xs arbitrary: db)
  case Nil
  show ?case by simp
next
  case (Cons x xs)
  then have "k \<noteq> w_id x" and "k \<notin> w_id ` set xs"
    by auto
  then show ?case
    using Cons.IH [of "check_worker_timeout now db x"]
    by (simp add: get_worker_check_worker_timeout)
qed

lemma foldl_check_worker_timeout_own:
  assumes "distinct (map w_id xs)" and "w \<in> set xs" and "get_worker db (w_id w) = Some w"
  shows "get_worker (foldl (check_worker_timeout now) db xs) (w_id w)
    = Some (if timed_out now w
            then w\<lparr>w_status := WORKER_OFFLINE, w_current_task := None\<rparr> else w)"
  using assms
proof (induction xs arbitrary: db)
  case Nil
  then show ?case by simp
next
  case (Cons x xs)
  show ?case
  proof (cases "x = w")
    case True
    then have "w_id w \<notin> w_id ` set xs"
      using Cons.prems(1) by auto
    then show ?thesis
      using True Cons.prems(3)
      by (simp add: foldl_check_worker_timeout_other get_worker_check_worker_timeout)
  next
    case False
    then have mem: "w \<in> set xs"
      using Cons.prems(2) by simp
    have other: "w_id w \<noteq> w_id x"
    proof
      assume "w_id w = w_id x"
      then have "w_id x \<in> w_id ` set xs"
        using mem by (metis imageI)
      then show False
        using Cons.prems(1) by simp
    qed
    have row: "get_worker (check_worker_timeout now db x) (w_id w) = Some w"
      using other Cons.prems(3) by (simp add: get_worker_check_worker_timeout)
    have d: "distinct (map w_id xs)"
      using Cons.prems(1) by simp
    show ?thesis
      using Cons.IH [OF d mem row] by simp
  qed
qed

lemma foldl_check_worker_timeout_settled:
  assumes "get_task db k = Some t" and "t_status t \<noteq> TASK_RUNNING"
  shows "get_task (foldl (check_worker_timeout now) db xs) k = Some t"
  using assms
proof (induction xs arbitrary: db)
  case Nil
  then show ?case by simp
next
  case (Cons x xs)
  have "get_task (check_worker_timeout now db x) k = Some t"
    using get_task_check_worker_timeout [OF Cons.prems(1), of now x] Cons.prems(2) by simp
  then show ?case
    using Cons.IH [of "check_worker_timeout now db x"] Cons.prems(2) by simp
qed

lemma foldl_check_worker_timeout_requeues:
  assumes "w \<in> set xs" and "timed_out now w" and "w_current_task w = Some k" and "k \<noteq> []"
    and "get_task db k = Some t" and "t_status t = TASK_RUNNING"
  shows "get_task (foldl (check_worker_timeout now) db xs) k = Some (requeued t)"
  using assms
proof (induction xs arbitrary: db)
  case Nil
  then show ?case by simp
next
  case (Cons x xs)
  let ?db = "check_worker_timeout now db x"
  have settled: "t_status (requeued t) \<noteq> TASK_RUNNING"
    by (simp add: requeued_def)
  show ?case
  proof (cases "timed_out now x \<and> w_current_task x = Some k")
    case True
    then have "get_task ?db k = Some (requeued t)"
      using get_task_check_worker_timeout [OF Cons.prems(5), of now x] Cons.prems(4,6) by simp
    then show ?thesis
      using foldl_check_worker_timeout_settled [OF _ settled, of ?db k now xs] by simp
  next
    case False
    then have "x \<noteq> w"
      using Cons.prems(2,3) by auto
    then have mem: "w \<in> set xs"
      using Cons.prems(1) by simp
    have "get_task ?db k = Some t"
      using get_task_check_worker_timeout [OF Cons.prems(5), of now x] False by auto
    then show ?thesis
      using Cons.IH [OF mem Cons.prems(2,3,4) _ Cons.prems(6), of ?db] by simp
  qed
qed

subsection \<open>Retrying a job\<close>

lemma retry_task_of_job_tasks:
  assumes "distinct (map t_id (tasks db))" and "t \<in> set (tasks db)"
  shows "tasks (retry_task_of_job db t)
    = map (\<lambda>r. if r = t \<and> t_status t = TASK_FAILED then retried r else r) (tasks db)"
proof (cases "t_status t = TASK_FAILED")
  case False
  then show ?thesis
    by (simp add: retry_task_of_job_def)
next
  case True
  have key: "t_id r = t_id t \<longleftrightarrow> r = t" if "r \<in> set (tasks db)" for r
    using assms that by (auto simp: distinct_map inj_on_def)
  have "tasks (retry_task_of_job db t)
      = map (\<lambda>r. if t_id r = t_id t
               then r\<lparr>t_status := TASK_PENDING, t_progress := t_progress t,
                      t_assigned_worker := None, t_started_at := t_started_at t,
                      t_finished_at := t_finished_at t, t_exit_code := None,
                      t_error_message := None, t_log_path := t_log_path t\<rparr>
               else r) (tasks db)"
    using True by (simp add: retry_task_of_job_def update_task_def)
  also have "\<dots> = map (\<lambda>r. if r = t \<and> t_status t = TASK_FAILED then retried r else r)
      (tasks db)"
  proof (rule map_cong [OF refl])
    fix r
    assume r: "r \<in> set (tasks db)"
    show "(if t_id r = t_id t
           then r\<lparr>t_status := TASK_PENDING, t_progress := t_progress t,
                  t_assigned_worker := None, t_started_at := t_started_at t,
                  t_finished_at := t_finished_at t, t_exit_code := None,
                  t_error_message := None, t_log_path := t_log_path t\<rparr>
           else r)
        = (if r = t \<and> t_status t = TASK_FAILED then retried r else r)"
    proof (cases "r = t")
      case same: True
      then show ?thesis
        using True by (simp add: retried_def)
    next
      case False
      then have "t_id r \<noteq> t_id t"
        using key [OF r] by simp
      then show ?thesis
        using False by simp
    qed
  qed
  finally show ?thesis .
qed

lemma retry_task_of_job_frame [simp]:
  "jobs (retry_task_of_job db t) = jobs db" "workers (retry_task_of_job db t) = workers db"
  by (simp_all add: retry_task_of_job_def update_task_def)

lemma foldl_retry_task_of_job_frame [simp]:
  "jobs (foldl retry_task_of_job db ts) = jobs db"
  "workers (foldl retry_task_of_job db ts) = workers db"
  by (induction ts arbitrary: db) simp_all

lemma foldl_retry_task_of_job_tasks:
  assumes "distinct (map t_id (tasks db))" and "distinct (map t_id ts)"
    and "set ts \<subseteq> set (tasks db)"
  shows "tasks (foldl retry_task_of_job db ts)
    = map (\<lambda>r. if r \<in> set ts \<and> t_status r = TASK_FAILED then retried r else r) (tasks db)"
  using assms
proof (induction ts arbitrary: db)
  case Nil
  then show ?case by simp
next
  case (Cons t ts)
  let ?f = "\<lambda>r. if r = t \<and> t_status t = TASK_FAILED then retried r else r"
  let ?db = "retry_task_of_job db t"
  have mem: "t \<in> set (tasks db)"
    using Cons.prems(3) by simp
  have step: "tasks ?db = map ?f (tasks db)"
    by (rule retry_task_of_job_tasks [OF Cons.prems(1) mem])
  have ids: "map t_id (tasks ?db) = map t_id (tasks db)"
    unfolding step by (simp add: retried_def)
  have d: "distinct (map t_id (tasks ?db))"
    unfolding ids by (rule Cons.prems(1))
  have d': "distinct (map t_id ts)"
    using Cons.prems(2) by simp
  have notin: "t \<notin> set ts"
  proof
    assume "t \<in> set ts"
    then have "t_id t \<in> t_id ` set ts"
      by (rule imageI)
    then show False
      using Cons.prems(2) by simp
  qed
  have sub: "set ts \<subseteq> set (tasks ?db)"
  proof
    fix r
    assume r: "r \<in> set ts"
    then have "r \<noteq> t" and "r \<in> set (tasks db)"
      using notin Cons.prems(3) by auto
    then have same: "?f r = r" and "?f r \<in> ?f ` set (tasks db)"
      by simp_all
    then have "r \<in> ?f ` set (tasks db)"
      by (simp only: same)
    then show "r \<in> set (tasks ?db)"
      unfolding step by (simp only: set_map)
  qed
  have "tasks (foldl retry_task_of_job ?db ts)
      = map (\<lambda>r. if r \<in> set ts \<and> t_status r = TASK_FAILED then retried r else r)
          (map ?f (tasks db))"
    using Cons.IH [OF d d' sub] step by simp
  also have "\<dots> = map (\<lambda>r. if r \<in> set (t # ts) \<and> t_status r = TASK_FAILED
                             then retried r else r) (tasks db)"
    unfolding map_map
  proof (rule map_cong [OF refl])
    fix r
    assume "r \<in> set (tasks db)"
    have pending: "t_status (retried t) \<noteq> TASK_FAILED"
      by (simp add: retried_def)
    show "((\<lambda>r. if r \<in> set ts \<and> t_status r = TASK_FAILED then retried r else r) \<circ> ?f) r
        = (if r \<in> set (t # ts) \<and> t_status r = TASK_FAILED then retried r else r)"
    proof (cases "r = t")
      case True
      then show ?thesis
        using pending notin by simp
    next
      case False
      then show ?thesis
        by simp
    qed
  qed
  finally show ?case by simp
qed

subsection \<open>The assignment invariant\<close>

lemma assignment_invariant_iff:
  "assignment_invariant db \<longleftrightarrow>
     (\<forall>t \<in> set (tasks db). task_holder_ok db t) \<and> (\<forall>w \<in> set (workers db). worker_task_ok db w)"
  by (simp add: assignment_invariant_def list_all_iff)

lemma task_holder_ok_iff:
  "task_holder_ok db t \<longleftrightarrow>
     (t_status t \<in> {TASK_ASSIGNED, TASK_RUNNING} \<longrightarrow>
        (\<exists>k w. t_assigned_worker t = Some k \<and> get_worker db k = Some w
           \<and> w_status w = WORKER_BUSY \<and> w_current_task w = Some (t_id t)))"
  by (auto simp: task_holder_ok_def split: option.splits)

lemma worker_task_ok_iff:
  "worker_task_ok db w \<longleftrightarrow>
     (w_status w = WORKER_BUSY \<longrightarrow>
        (\<exists>k t. w_current_task w = Some k \<and> get_task db k = Some t
           \<and> t_assigned_worker t = Some (w_id w)))"
  by (auto simp: worker_task_ok_def split: option.splits)



lemma tasks_upsert_worker [simp]: "tasks (upsert_worker db w) = tasks db"
  by (simp add: upsert_worker_def)

lemma get_task_upsert_worker [simp]: "get_task (upsert_worker db w) k = get_task db k"
  by (simp add: get_task_def)



lemma workers_update_task_status [simp]:
  "workers (update_task_status db task_id status started_at finished_at exit_code msg)
   = workers db"
  by (simp add: update_task_status_def)

lemma get_worker_update_task_status [simp]:
  "get_worker (update_task_status db task_id status started_at finished_at exit_code msg) k
   = get_worker db k"
  by (simp add: get_worker_def)

lemma get_worker_update_job [simp]: "get_worker (update_job db job) k = get_worker db k"
  by (simp add: get_worker_def)

lemma get_task_update_job [simp]: "get_task (update_job db job) k = get_task db k"
  by (simp add: get_task_def)

lemma assignment_invariant_update_job [simp]:
  "assignment_invariant (update_job db job) = assignment_invariant db"
  by (simp add: assignment_invariant_iff task_holder_ok_iff worker_task_ok_iff)




lemma get_next_task_for_worker_Some:
  assumes "get_next_task_for_worker db w = Some t"
  shows "t \<in> set (tasks db) \<and> t_status t = TASK_PENDING
    \<and> (\<exists>j \<in> set (jobs db). j_id j = t_job_id t \<and> j_status j \<in> {JOB_QUEUED, JOB_ACTIVE}
          \<and> j_pool j \<in> set (w_pools w))"
proof -
  let ?rows = "concat (map (\<lambda>t. map (\<lambda>j. (t, j))
                   (filter (\<lambda>j. t_job_id t = j_id j
                      \<and> t_status t = TASK_PENDING
                      \<and> j_status j \<in> {JOB_QUEUED, JOB_ACTIVE}
                      \<and> j_pool j \<in> set (w_pools w)) (jobs db))) (tasks db))"
  let ?ordered = "sort_key (\<lambda>(t, j). (- j_priority j, j_submitted_at j, t_index t)) ?rows"
  obtain j rest where "?ordered = (t, j) # rest"
    using assms by (auto simp: get_next_task_for_worker_def Let_def split: list.splits)
  then have "(t, j) \<in> set ?ordered"
    by simp
  then have "(t, j) \<in> set ?rows"
    by (simp only: set_sort)
  then show ?thesis
    by auto
qed

lemma request_task_assigned:
  assumes "request_task db now worker_id = (db', Inr (Some (t', jo)))"
  shows "\<exists>w t. get_worker db worker_id = Some w \<and> w_status w = WORKER_IDLE
      \<and> get_next_task_for_worker db w = Some t
      \<and> t' = t\<lparr>t_status := TASK_ASSIGNED, t_assigned_worker := Some worker_id\<rparr>
      \<and> (db' = update_worker (update_task db t')
                  (w\<lparr>w_status := WORKER_BUSY, w_current_task := Some (t_id t)\<rparr>)
          \<or> (\<exists>job. db' = update_job (update_worker (update_task db t')
                  (w\<lparr>w_status := WORKER_BUSY, w_current_task := Some (t_id t)\<rparr>)) job))"
proof (cases "get_worker db worker_id")
  case None
  then show ?thesis
    using assms by (simp add: request_task_def)
next
  case (Some w)
  show ?thesis
  proof (cases "w_status w = WORKER_IDLE")
    case False
    then show ?thesis
      using assms Some by (simp add: request_task_def)
  next
    case True
    show ?thesis
    proof (cases "get_next_task_for_worker db w")
      case None
      then show ?thesis
        using assms Some True by (simp add: request_task_def)
    next
      case t: (Some t)
      show ?thesis
        using assms Some True t
        by (auto simp: request_task_def Let_def split: option.splits if_splits)
    qed
  qed
qed

lemma get_task_member: "get_task db k = Some t \<Longrightarrow> t \<in> set (tasks db)"
  by (auto simp: get_task_def find_Some_iff)






subsection \<open>The whole sweep and the assignment invariant\<close>















subsection \<open>Jobs without tasks\<close>

lemma no_tasks_of_iff: "no_tasks_of db f \<longleftrightarrow> f \<notin> task_jobs db"
  by (auto simp: no_tasks_of_def task_jobs_def list_all_iff)

lemma task_jobs_tasks: "tasks db' = tasks db \<Longrightarrow> task_jobs db' = task_jobs db"
  by (simp add: task_jobs_def)

lemma map_job_id_update:
  assumes "\<And>r. t_job_id (g r) = t_job_id r"
  shows "(\<lambda>r. t_job_id (if P r then g r else r)) ` S = t_job_id ` S"
proof (rule image_cong [OF refl])
  fix r
  show "t_job_id (if P r then g r else r) = t_job_id r"
    using assms by simp
qed

lemma task_jobs_update_task [simp]: "task_jobs (update_task db t) = task_jobs db"
  by (simp add: task_jobs_def update_task_def map_job_id_update)

lemma task_jobs_update_task_status [simp]:
  "task_jobs (update_task_status db k status started finished code msg) = task_jobs db"
  by (simp add: task_jobs_def update_task_status_def map_job_id_update)

lemma task_jobs_update_task_progress [simp]:
  "task_jobs (update_task_progress db k progress) = task_jobs db"
  by (simp add: task_jobs_def update_task_progress_def map_job_id_update)

lemma task_jobs_update_job [simp]: "task_jobs (update_job db job) = task_jobs db"
  by (simp add: task_jobs_def)

lemma task_jobs_update_job_status [simp]:
  "task_jobs (update_job_status db now k status msg) = task_jobs db"
  by (simp add: task_jobs_def update_job_status_def)

lemma task_jobs_upsert_worker [simp]: "task_jobs (upsert_worker db w) = task_jobs db"
  by (simp add: task_jobs_def)

lemma task_jobs_update_worker [simp]: "task_jobs (update_worker db w) = task_jobs db"
  by (simp add: update_worker_def)

lemma task_jobs_update_worker_heartbeat [simp]:
  "task_jobs (update_worker_heartbeat db now k data) = task_jobs db"
  by (simp add: task_jobs_def update_worker_heartbeat_def)

lemma task_jobs_mark_worker_offline [simp]: "task_jobs (mark_worker_offline db k) = task_jobs db"
  by (simp add: task_jobs_def)

lemma task_jobs_delete_worker [simp]: "task_jobs (delete_worker db k) = task_jobs db"
  by (simp add: task_jobs_def delete_worker_def)

lemma task_jobs_delete_job: "task_jobs (delete_job db k) = task_jobs db - {k}"
  by (auto simp: task_jobs_def delete_job_def)

lemma task_jobs_release_worker [simp]: "task_jobs (release_worker db t) = task_jobs db"
  by (simp add: release_worker_def split: option.splits)

lemma task_jobs_check_worker_timeout [simp]:
  "task_jobs (check_worker_timeout now db w) = task_jobs db"
  by (simp add: check_worker_timeout_def split: option.splits)

lemma task_jobs_check_worker_timeouts [simp]:
  "task_jobs (check_worker_timeouts now db) = task_jobs db"
proof -
  have "task_jobs (foldl (check_worker_timeout now) db ws) = task_jobs db" for ws
    by (induction ws arbitrary: db) simp_all
  then show ?thesis
    by (simp add: check_worker_timeouts_def)
qed

lemma task_jobs_update_job_progress [simp]:
  "task_jobs (update_job_progress plugins fp uuid4 now db) = task_jobs db"
  using foldl_update_one_job_progress_tasks [of plugins fp uuid4 now "(db, 0)"]
  by (simp add: update_job_progress_def task_jobs_def)

lemma task_jobs_retry_job [simp]: "task_jobs (fst (retry_job db k)) = task_jobs db"
proof -
  have "task_jobs (foldl retry_task_of_job db ts) = task_jobs db" for ts
    by (induction ts arbitrary: db) (simp_all add: retry_task_of_job_def)
  then show ?thesis
    by (simp add: retry_job_def split: option.splits)
qed

lemma task_jobs_add_tasks:
  "task_jobs (fst (add_tasks db ts)) \<subseteq> task_jobs db \<union> t_job_id ` set ts"
proof (induction ts arbitrary: db)
  case Nil
  show ?case by simp
next
  case (Cons t ts)
  show ?case
  proof (cases "add_task db t")
    case (Inl e)
    then show ?thesis by auto
  next
    case (Inr db')
    then have "task_jobs db' = insert (t_job_id t) (task_jobs db)"
      by (auto simp: add_task_def task_jobs_def split: if_splits)
    then show ?thesis
      using Cons.IH [of db'] Inr by auto
  qed
qed

lemma task_jobs_submit_job:
  assumes "partitions_own_job plugins"
  shows "task_jobs (fst (submit_job plugins db new_id now submission))
    \<subseteq> insert new_id (task_jobs db)"
proof (cases "plugins (s_plugin submission)")
  case None
  then show ?thesis
    by (auto simp: submit_job_def)
next
  case (Some plugin)
  let ?job = "submitted_job new_id now submission"
  obtain valid err where v: "validate plugin (s_plugin_data submission) = (valid, err)"
    by (cases "validate plugin (s_plugin_data submission)")
  have id: "j_id ?job = new_id"
    by (simp add: submitted_job_def new_Job_def)
  show ?thesis
  proof (cases "valid \<and> get_job db new_id = None")
    case False
    then show ?thesis
      using Some v id
      by (auto simp: submit_job_def submitted_job_def [symmetric] add_job_def)
  next
    case True
    let ?db1 = "db\<lparr>jobs := jobs db @ [?job]\<rparr>"
    have added: "add_job db ?job = Inr ?db1"
      using True id by (simp add: add_job_def)
    have base: "task_jobs ?db1 = task_jobs db"
      by (simp add: task_jobs_def)
    show ?thesis
    proof (cases "create_tasks plugin ?job")
      case (Inl e)
      then show ?thesis
        using Some v True added id base
        by (auto simp: submit_job_def submitted_job_def [symmetric] task_jobs_delete_job)
    next
      case (Inr ts)
      have "plugins name = Some p \<Longrightarrow> create_tasks p job = Inr ts' \<Longrightarrow>
          \<forall>t \<in> set ts'. t_job_id t = j_id job" for name p job ts'
        using assms unfolding partitions_own_job_def by blast
      from this [OF Some Inr] have own: "t_job_id ` set ts \<subseteq> {new_id}"
        using id by auto
      obtain db2 r where at: "add_tasks ?db1 ts = (db2, r)"
        by (cases "add_tasks ?db1 ts")
      then have "task_jobs db2 \<subseteq> task_jobs db \<union> t_job_id ` set ts"
        using task_jobs_add_tasks [of ?db1 ts] base by simp
      then have sub: "task_jobs db2 \<subseteq> insert new_id (task_jobs db)"
        using own by auto
      show ?thesis
        using Some v True added id Inr at sub
        by (cases r)
          (auto simp: submit_job_def submitted_job_def [symmetric] task_jobs_delete_job Let_def)
    qed
  qed
qed

lemma task_jobs_request_task [simp]:
  "task_jobs (fst (request_task db now worker_id)) = task_jobs db"
  by (simp add: request_task_def Let_def split: option.splits)

lemma task_jobs_task_completed [simp]:
  "task_jobs (fst (task_completed fp db now task_id exit_code)) = task_jobs db"
  by (simp add: task_completed_def Let_def split: option.splits)

lemma task_jobs_task_failed [simp]:
  "task_jobs (fst (task_failed fp db now task_id exit_code msg)) = task_jobs db"
  by (simp add: task_failed_def Let_def split: option.splits)

lemma fst_retry_job_endpoint: "fst (retry_job_endpoint db k) = fst (retry_job db k)"
  by (cases "retry_job db k") (simp add: retry_job_endpoint_def)

lemma task_jobs_apply_operation:
  assumes "partitions_own_job plugins" and "\<not> resubmits f op" and "f \<notin> task_jobs db"
  shows "f \<notin> task_jobs (apply_operation plugins fp db op)"
proof (cases op)
  case (Submit new_id now submission)
  then show ?thesis
    using assms task_jobs_submit_job [OF assms(1), of db new_id now submission] by auto
next
  case (DeleteJob job_id)
  then show ?thesis
    using assms
    by (simp add: delete_job_endpoint_def task_jobs_delete_job split: option.splits)
next
  case (RetryJob job_id)
  then show ?thesis
    using assms by (simp add: fst_retry_job_endpoint)
next
  case (SchedulerTick uuid4 now)
  then show ?thesis
    using assms by (simp add: scheduler_tick_def)
qed (use assms in \<open>simp_all add: suspend_job_endpoint_def suspend_job_def
      resume_job_endpoint_def resume_job_def cancel_job_endpoint_def cancel_job_def
      update_job_priority_def task_started_def task_progress_def
      retry_task_def cancel_task_def suspend_task_def register_worker_def
      worker_heartbeat_def disable_worker_def enable_worker_def delete_worker_endpoint_def
      Let_def split: option.splits prod.splits\<close>)

lemma pending_job_iff:
  "pending_job db f \<longleftrightarrow>
     (\<exists>j \<in> set (jobs db). j_id j = f)
     \<and> (\<forall>j \<in> set (jobs db). j_id j = f \<longrightarrow> j_status j = JOB_PENDING)"
  by (simp add: pending_job_def list_all_iff list_ex_iff)

lemma pending_job_jobs: "jobs db' = jobs db \<Longrightarrow> pending_job db' f = pending_job db f"
  by (simp add: pending_job_def)

lemma get_job_member: "get_job db k = Some j \<Longrightarrow> j \<in> set (jobs db)"
  by (auto simp: get_job_def find_Some_iff)

lemma pending_job_get_job:
  assumes "pending_job db f"
  shows "\<exists>j. get_job db f = Some j \<and> j_status j = JOB_PENDING"
proof (cases "get_job db f")
  case None
  then show ?thesis
    using assms by (auto simp: pending_job_iff get_job_def find_None_iff)
next
  case (Some j)
  then show ?thesis
    using assms get_job_member [OF Some] get_job_id [OF Some] by (auto simp: pending_job_iff)
qed

lemma pending_job_update_job:
  assumes "pending_job db f" and "j_id job = f \<Longrightarrow> j_status job = JOB_PENDING"
  shows "pending_job (update_job db job) f"
proof -
  let ?g = "\<lambda>r. if j_id r = j_id job
        then job\<lparr>j_submitted_by := j_submitted_by r, j_submitted_at := j_submitted_at r\<rparr>
        else r"
  have rows: "set (jobs (update_job db job)) = ?g ` set (jobs db)"
    by (simp add: update_job_def)
  have id: "j_id (?g r) = j_id r" for r
    by simp
  have st: "j_id r = f \<Longrightarrow> j_status r = JOB_PENDING \<Longrightarrow> j_status (?g r) = JOB_PENDING" for r
    using assms(2) by simp
  obtain j where j: "j \<in> set (jobs db)" "j_id j = f"
    using assms(1) by (auto simp: pending_job_iff)
  have "?g j \<in> ?g ` set (jobs db)"
    using j(1) by (rule imageI)
  moreover have "j_id (?g j) = f"
    using j(2) id [of j] by simp
  ultimately have ex: "\<exists>r \<in> ?g ` set (jobs db). j_id r = f"
    by (rule rev_bexI)
  have all: "\<forall>r' \<in> ?g ` set (jobs db). j_id r' = f \<longrightarrow> j_status r' = JOB_PENDING"
  proof (intro ballI impI)
    fix r'
    assume "r' \<in> ?g ` set (jobs db)" and f: "j_id r' = f"
    then obtain r where r: "r \<in> set (jobs db)" "r' = ?g r"
      by auto
    then have "j_id r = f"
      using f id [of r] by simp
    moreover from this have "j_status r = JOB_PENDING"
      using assms(1) r(1) by (auto simp: pending_job_iff)
    ultimately show "j_status r' = JOB_PENDING"
      unfolding r(2) by (rule st)
  qed
  show ?thesis
    unfolding pending_job_iff rows using ex all by blast
qed

lemma pending_job_update_job_status:
  "k \<noteq> f \<Longrightarrow> pending_job (update_job_status db now k status msg) f = pending_job db f"
  by (auto simp: pending_job_iff update_job_status_def)

lemma pending_job_delete_job: "k \<noteq> f \<Longrightarrow> pending_job (delete_job db k) f = pending_job db f"
  by (auto simp: pending_job_iff delete_job_def)

lemma pending_job_append:
  assumes "pending_job db f" and "jobs db' = jobs db @ new"
    and "\<forall>j \<in> set new. j_status j = JOB_PENDING"
  shows "pending_job db' f"
  using assms by (auto simp: pending_job_iff)

subsection \<open>Pending jobs through the operations\<close>

lemma jobs_update_task [simp]: "jobs (update_task db t) = jobs db"
  by (simp add: update_task_def)

lemma jobs_update_task_status [simp]:
  "jobs (update_task_status db k status started finished code msg) = jobs db"
  by (simp add: update_task_status_def)

lemma jobs_update_task_progress [simp]: "jobs (update_task_progress db k p) = jobs db"
  by (simp add: update_task_progress_def)

lemma jobs_upsert_worker [simp]: "jobs (upsert_worker db w) = jobs db"
  by (simp add: upsert_worker_def)

lemma jobs_update_worker [simp]: "jobs (update_worker db w) = jobs db"
  by (simp add: update_worker_def)

lemma jobs_update_worker_heartbeat [simp]:
  "jobs (update_worker_heartbeat db now k data) = jobs db"
  by (simp add: update_worker_heartbeat_def)

lemma jobs_mark_worker_offline [simp]: "jobs (mark_worker_offline db k) = jobs db"
  by (simp add: mark_worker_offline_def)

lemma jobs_delete_worker [simp]: "jobs (delete_worker db k) = jobs db"
  by (simp add: delete_worker_def)

lemma jobs_release_worker [simp]: "jobs (release_worker db t) = jobs db"
  by (simp add: release_worker_def split: option.splits)

lemma jobs_check_worker_timeout [simp]: "jobs (check_worker_timeout now db w) = jobs db"
  by (simp add: check_worker_timeout_def split: option.splits)

lemma jobs_check_worker_timeouts [simp]: "jobs (check_worker_timeouts now db) = jobs db"
proof -
  have "jobs (foldl (check_worker_timeout now) db ws) = jobs db" for ws
    by (induction ws arbitrary: db) simp_all
  then show ?thesis
    by (simp add: check_worker_timeouts_def)
qed

lemma jobs_add_tasks [simp]: "jobs (fst (add_tasks db ts)) = jobs db"
proof (induction ts arbitrary: db)
  case Nil
  show ?case by simp
next
  case (Cons t ts)
  show ?case
  proof (cases "add_task db t")
    case (Inl e)
    then show ?thesis by simp
  next
    case (Inr db')
    then have "jobs db' = jobs db"
      by (auto simp: add_task_def split: if_splits)
    then show ?thesis
      using Cons.IH [of db'] Inr by simp
  qed
qed

lemma get_job_cong_jobs: "jobs db' = jobs db \<Longrightarrow> get_job db' k = get_job db k"
  by (simp add: get_job_def)

lemma task_jobs_get_task: "get_task db k = Some t \<Longrightarrow> t_job_id t \<in> task_jobs db"
  using get_task_member [of db k t] by (auto simp: task_jobs_def)

lemma submit_job_existing_id:
  "get_job db new_id \<noteq> None \<Longrightarrow> fst (submit_job plugins db new_id now submission) = db"
  by (auto simp: submit_job_def add_job_def new_Job_def split: option.splits prod.splits)


lemma pending_job_cong: "jobs db' = jobs db \<Longrightarrow> pending_job db f \<Longrightarrow> pending_job db' f"
  by (simp add: pending_job_def)

lemma pending_job_submit_job:
  assumes "pending_job db f"
  shows "pending_job (fst (submit_job plugins db new_id now submission)) f"
proof (cases "get_job db new_id")
  case (Some j)
  then have "fst (submit_job plugins db new_id now submission) = db"
    by (intro submit_job_existing_id) simp
  then show ?thesis
    using assms by simp
next
  case None
  have other: "new_id \<noteq> f"
    using pending_job_get_job [OF assms] None by auto
  show ?thesis
  proof (cases "plugins (s_plugin submission)")
    case None
    then show ?thesis
      using assms by (simp add: submit_job_def)
  next
    case (Some plugin)
    let ?job = "submitted_job new_id now submission"
    obtain valid err where v: "validate plugin (s_plugin_data submission) = (valid, err)"
      by (cases "validate plugin (s_plugin_data submission)")
    have id: "j_id ?job = new_id"
      by (simp add: submitted_job_def new_Job_def)
    show ?thesis
    proof (cases valid)
      case False
      then show ?thesis
        using Some v assms by (simp add: submit_job_def)
    next
      case True
      let ?db1 = "db\<lparr>jobs := jobs db @ [?job]\<rparr>"
      have added: "add_job db ?job = Inr ?db1"
        using None id by (simp add: add_job_def)
      have base: "pending_job ?db1 f"
        using assms id other by (auto simp: pending_job_iff)
      show ?thesis
      proof (cases "create_tasks plugin ?job")
        case (Inl e)
        have "pending_job (delete_job ?db1 new_id) f"
          using base other by (simp add: pending_job_delete_job)
        then show ?thesis
          using Some v True added id Inl
          by (simp add: submit_job_def submitted_job_def [symmetric])
      next
        case (Inr ts)
        obtain db2 r where at: "add_tasks ?db1 ts = (db2, r)"
          by (cases "add_tasks ?db1 ts")
        then have "jobs db2 = jobs ?db1"
          using jobs_add_tasks [of ?db1 ts] by simp
        then have p2: "pending_job db2 f"
          using base by (rule pending_job_cong)
        have del: "pending_job (delete_job db2 new_id) f"
          using p2 other by (simp add: pending_job_delete_job)
        have upd: "pending_job (update_job db2 j) f" if "j_id j = new_id" for j
          using p2 that other by (intro pending_job_update_job) simp_all
        have upd': "pending_job (update_job db2
            (?job\<lparr>j_task_total := int (length ts), j_status := JOB_QUEUED\<rparr>)) f"
          by (rule upd) (simp add: id)
        show ?thesis
          using Some v True added id Inr at del upd'
          by (cases r) (simp_all add: submit_job_def submitted_job_def [symmetric] Let_def)
      qed
    qed
  qed
qed


lemma pending_job_status:
  assumes "pending_job db f" and "get_job db f = Some j"
  shows "j_status j = JOB_PENDING"
  using pending_job_get_job [OF assms(1)] assms(2) by auto

lemma pending_job_suspend_job:
  assumes "pending_job db f" and "k \<noteq> f"
  shows "pending_job (fst (suspend_job_endpoint db now k)) f"
  using assms
  by (simp add: suspend_job_endpoint_def suspend_job_def pending_job_update_job_status
      split: option.splits)

lemma pending_job_cancel_job:
  assumes "pending_job db f" and "k \<noteq> f"
  shows "pending_job (fst (cancel_job_endpoint db now k)) f"
  using assms
  by (simp add: cancel_job_endpoint_def cancel_job_def pending_job_update_job_status
      split: option.splits)

lemma pending_job_resume_job:
  assumes "pending_job db f"
  shows "pending_job (fst (resume_job_endpoint db now k)) f"
proof (cases "k = f")
  case True
  obtain j where "get_job db f = Some j" "j_status j = JOB_PENDING"
    using pending_job_get_job [OF assms] by auto
  then show ?thesis
    using assms True by (simp add: resume_job_endpoint_def resume_job_def)
next
  case False
  then show ?thesis
    using assms
    by (simp add: resume_job_endpoint_def resume_job_def pending_job_update_job_status
        split: option.splits)
qed

lemma pending_job_retry_job:
  assumes "pending_job db f"
  shows "pending_job (fst (retry_job db k)) f"
proof (cases "get_job db k")
  case None
  then show ?thesis
    using assms by (simp add: retry_job_def)
next
  case (Some job)
  show ?thesis
  proof (cases "j_status job = JOB_FAILED")
    case False
    then show ?thesis
      using assms Some by (simp add: retry_job_def)
  next
    case True
    have "k \<noteq> f"
      using pending_job_status [OF assms] Some True by auto
    then have other: "j_id job \<noteq> f"
      using get_job_id [OF Some] by simp
    let ?db1 = "foldl retry_task_of_job db (get_tasks_by_job db k)"
    have "pending_job ?db1 f"
      using _ assms by (rule pending_job_cong) simp
    then have "pending_job (update_job ?db1 (job\<lparr>j_status := JOB_QUEUED, j_task_failed := 0,
        j_error_message := None, j_finished_at := None\<rparr>)) f"
      using other by (intro pending_job_update_job) simp_all
    then show ?thesis
      using Some True by (simp add: retry_job_def Let_def)
  qed
qed

lemma pending_job_delete_job_endpoint:
  assumes "pending_job db f"
  shows "pending_job (fst (delete_job_endpoint db k)) f"
proof (cases "k = f")
  case True
  obtain j where "get_job db f = Some j" "j_status j = JOB_PENDING"
    using pending_job_get_job [OF assms] by auto
  then show ?thesis
    using assms True by (simp add: delete_job_endpoint_def)
next
  case False
  then show ?thesis
    using assms
    by (simp add: delete_job_endpoint_def pending_job_delete_job split: option.splits)
qed

lemma pending_job_update_job_priority:
  assumes "pending_job db f"
  shows "pending_job (fst (update_job_priority db k priority)) f"
proof (cases "get_job db k")
  case None
  then show ?thesis
    using assms by (simp add: update_job_priority_def)
next
  case (Some job)
  have id: "j_id job = k"
    using Some by (rule get_job_id)
  have "pending_job (update_job db (job\<lparr>j_priority := priority\<rparr>)) f"
  proof (rule pending_job_update_job [OF assms])
    assume "j_id (job\<lparr>j_priority := priority\<rparr>) = f"
    then have "get_job db f = Some job"
      using Some id by simp
    then show "j_status (job\<lparr>j_priority := priority\<rparr>) = JOB_PENDING"
      using pending_job_status [OF assms] by simp
  qed
  then show ?thesis
    using assms Some by (simp add: update_job_priority_def)
qed

lemma pending_job_task_completed:
  assumes "pending_job db f" and "f \<notin> task_jobs db"
  shows "pending_job (fst (task_completed fp db now k exit_code)) f"
proof (cases "get_task db k")
  case None
  then show ?thesis
    using assms by (simp add: task_completed_def)
next
  case (Some task)
  have other: "t_job_id task \<noteq> f"
    using task_jobs_get_task [OF Some] assms(2) by auto
  let ?db2 = "release_worker
      (update_task_status db k TASK_COMPLETED None (Some now) (Some exit_code) None) task"
  have p2: "pending_job ?db2 f"
    using _ assms(1) by (rule pending_job_cong) simp
  show ?thesis
  proof (cases "get_job ?db2 (t_job_id task)")
    case None
    then show ?thesis
      using Some p2 by (simp add: task_completed_def Let_def)
  next
    case (Some job)
    have id: "j_id job \<noteq> f"
      using get_job_id [OF Some] other by simp
    have "pending_job (update_job ?db2 j) f" if "j_id j = j_id job" for j
      using p2 that id by (intro pending_job_update_job) simp_all
    then show ?thesis
      using \<open>get_task db k = Some task\<close> Some
      by (simp add: task_completed_def Let_def)
  qed
qed

lemma pending_job_task_failed:
  assumes "pending_job db f" and "f \<notin> task_jobs db"
  shows "pending_job (fst (task_failed fp db now k exit_code msg)) f"
proof (cases "get_task db k")
  case None
  then show ?thesis
    using assms by (simp add: task_failed_def)
next
  case (Some task)
  have other: "t_job_id task \<noteq> f"
    using task_jobs_get_task [OF Some] assms(2) by auto
  let ?db2 = "release_worker
      (update_task_status db k TASK_FAILED None (Some now) (Some exit_code) msg) task"
  have p2: "pending_job ?db2 f"
    using _ assms(1) by (rule pending_job_cong) simp
  show ?thesis
  proof (cases "get_job ?db2 (t_job_id task)")
    case None
    then show ?thesis
      using Some p2 by (simp add: task_failed_def Let_def)
  next
    case (Some job)
    have id: "j_id job \<noteq> f"
      using get_job_id [OF Some] other by simp
    have "pending_job (update_job ?db2 j) f" if "j_id j = j_id job" for j
      using p2 that id by (intro pending_job_update_job) simp_all
    then show ?thesis
      using \<open>get_task db k = Some task\<close> Some
      by (simp add: task_failed_def Let_def)
  qed
qed


lemma pending_job_request_task:
  assumes "pending_job db f" and "f \<notin> task_jobs db"
  shows "pending_job (fst (request_task db now k)) f"
proof (cases "request_task db now k")
  case (Pair db' r)
  show ?thesis
  proof (cases "\<exists>t jo. r = Inr (Some (t, jo))")
    case False
    then have "db' = db"
      using Pair
      by (auto simp: request_task_def Let_def split: option.splits if_splits)
    then show ?thesis
      using assms Pair by simp
  next
    case True
    then obtain t' jo where r: "r = Inr (Some (t', jo))"
      by auto
    obtain w t where w: "get_worker db k = Some w" and idle: "w_status w = WORKER_IDLE"
        and t: "get_next_task_for_worker db w = Some t"
        and t': "t' = t\<lparr>t_status := TASK_ASSIGNED, t_assigned_worker := Some k\<rparr>"
        and db': "db' = update_worker (update_task db t')
                    (w\<lparr>w_status := WORKER_BUSY, w_current_task := Some (t_id t)\<rparr>)
          \<or> (\<exists>job. db' = update_job (update_worker (update_task db t')
                    (w\<lparr>w_status := WORKER_BUSY, w_current_task := Some (t_id t)\<rparr>)) job)"
      using request_task_assigned [of db now k db' t' jo] Pair r by blast
    let ?db2 = "update_worker (update_task db t')
                    (w\<lparr>w_status := WORKER_BUSY, w_current_task := Some (t_id t)\<rparr>)"
    have p2: "pending_job ?db2 f"
      using _ assms(1) by (rule pending_job_cong) simp
    have "t \<in> set (tasks db)"
      using get_next_task_for_worker_Some [OF t] by simp
    then have other: "t_job_id t' \<noteq> f"
      using assms(2) t' by (auto simp: task_jobs_def)
    have "pending_job db' f"
    proof (cases "get_job ?db2 (t_job_id t')")
      case None
      then have "db' = ?db2"
        using Pair w idle t t' by (simp add: request_task_def Let_def split: if_splits)
      then show ?thesis
        using p2 by simp
    next
      case (Some job)
      have id: "j_id job \<noteq> f"
        using get_job_id [OF Some] other by simp
      have "pending_job (update_job ?db2 j) f" if "j_id j = j_id job" for j
        using p2 that id by (intro pending_job_update_job) simp_all
      then have "pending_job (update_job ?db2
          (job\<lparr>j_status := JOB_ACTIVE, j_started_at := Some now\<rparr>)) f"
        by simp
      moreover have "db' = ?db2 \<or> db' = update_job ?db2
          (job\<lparr>j_status := JOB_ACTIVE, j_started_at := Some now\<rparr>)"
        using Pair w idle t t' Some
        by (auto simp: request_task_def Let_def split: if_splits)
      ultimately show ?thesis
        using p2 by auto
    qed
    then show ?thesis
      using Pair by simp
  qed
qed

lemma pending_job_update_one_job_progress:
  assumes "pending_job (fst st) f" and "j_id job \<noteq> f"
  shows "pending_job (fst (update_one_job_progress plugins fp uuid4 now st job)) f"
proof -
  obtain db n where st: "st = (db, n)"
    by (cases st)
  have p: "pending_job db f"
    using assms(1) st by simp
  have upd: "pending_job (update_job d j) f" if "pending_job d f" and "j_id j = j_id job" for d j
    using that assms(2) by (intro pending_job_update_job) simp_all
  obtain new where new: "jobs (fst (create_follow_up_jobs plugins uuid4 now j (db, n)))
      = jobs db @ new j" "\<forall>r \<in> set (new j). j_status r = JOB_PENDING" for j
    using create_follow_up_jobs_frame [of plugins uuid4 now _ db n] by metis
  have follow: "pending_job (fst (create_follow_up_jobs plugins uuid4 now j (db, n))) f" for j
    using p new(1) new(2) by (rule pending_job_append)
  have done_branch: "pending_job (update_job
      (fst (create_follow_up_jobs plugins uuid4 now j (db, n))) j) f" if "j_id j = j_id job" for j
    using follow that by (rule upd)
  show ?thesis
    unfolding st
    by (simp add: update_one_job_progress_def Let_def p upd done_branch)
qed

lemma pending_job_update_job_progress:
  assumes "pending_job db f"
  shows "pending_job (update_job_progress plugins fp uuid4 now db) f"
proof -
  have fold: "pending_job (fst (foldl (update_one_job_progress plugins fp uuid4 now) st xs)) f"
    if "pending_job (fst st) f" and "\<forall>x \<in> set xs. j_id x \<noteq> f" for st xs
    using that
  proof (induction xs arbitrary: st)
    case Nil
    then show ?case by simp
  next
    case (Cons x xs)
    have "pending_job (fst (update_one_job_progress plugins fp uuid4 now st x)) f"
      using Cons.prems by (intro pending_job_update_one_job_progress) simp_all
    then show ?case
      using Cons.IH [of "update_one_job_progress plugins fp uuid4 now st x"] Cons.prems
      by simp
  qed
  have "\<forall>x \<in> set (get_jobs_by_status db JOB_ACTIVE). j_id x \<noteq> f"
    using assms by (auto simp: get_jobs_by_status_def pending_job_iff)
  then show ?thesis
    using fold [of "(db, 0)"] assms by (simp add: update_job_progress_def)
qed

lemma pending_job_scheduler_tick:
  assumes "pending_job db f"
  shows "pending_job (scheduler_tick plugins fp uuid4 now db) f"
proof -
  have "pending_job (check_worker_timeouts now db) f"
    using _ assms by (rule pending_job_cong) simp
  then show ?thesis
    unfolding scheduler_tick_def by (rule pending_job_update_job_progress)
qed


lemma pending_job_apply_operation:
  assumes "pending_job db f" and "f \<notin> task_jobs db" and "\<not> moves_job f op"
  shows "pending_job (apply_operation plugins fp db op) f"
proof (cases op)
  case (Submit new_id now submission)
  then show ?thesis
    using assms(1) by (simp add: pending_job_submit_job)
next
  case (SuspendJob now k)
  then show ?thesis
    using assms by (simp add: pending_job_suspend_job)
next
  case (ResumeJob now k)
  then show ?thesis
    using assms(1) by (simp add: pending_job_resume_job)
next
  case (CancelJob now k)
  then show ?thesis
    using assms by (simp add: pending_job_cancel_job)
next
  case (RetryJob k)
  then show ?thesis
    using assms(1) by (simp add: fst_retry_job_endpoint pending_job_retry_job)
next
  case (DeleteJob k)
  then show ?thesis
    using assms(1) by (simp add: pending_job_delete_job_endpoint)
next
  case (UpdateJobPriority k priority)
  then show ?thesis
    using assms(1) by (simp add: pending_job_update_job_priority)
next
  case (TaskStarted now k)
  have "jobs (fst (task_started db now k)) = jobs db"
    by (simp add: task_started_def)
  then show ?thesis
    using assms(1) TaskStarted by (simp add: pending_job_def)
next
  case (TaskProgress k progress)
  have "jobs (fst (task_progress db k progress)) = jobs db"
    by (simp add: task_progress_def)
  then show ?thesis
    using assms(1) TaskProgress by (simp add: pending_job_def)
next
  case (TaskCompleted now k exit_code)
  then show ?thesis
    using assms(1,2) by (simp add: pending_job_task_completed)
next
  case (TaskFailed now k exit_code msg)
  then show ?thesis
    using assms(1,2) by (simp add: pending_job_task_failed)
next
  case (RetryTask k)
  have "jobs (fst (retry_task db k)) = jobs db"
    by (simp add: retry_task_def Let_def split: option.splits)
  then show ?thesis
    using assms(1) RetryTask by (simp add: pending_job_def)
next
  case (CancelTask k)
  have "jobs (fst (cancel_task db k)) = jobs db"
    by (simp add: cancel_task_def split: option.splits)
  then show ?thesis
    using assms(1) CancelTask by (simp add: pending_job_def)
next
  case (SuspendTask k)
  have "jobs (fst (suspend_task db k)) = jobs db"
    by (simp add: suspend_task_def split: option.splits)
  then show ?thesis
    using assms(1) SuspendTask by (simp add: pending_job_def)
next
  case (RegisterWorker now data)
  have "jobs (fst (register_worker db now data)) = jobs db"
    by (simp add: register_worker_def Let_def)
  then show ?thesis
    using assms(1) RegisterWorker by (simp add: pending_job_def)
next
  case (WorkerHeartbeat now k data)
  have "jobs (fst (worker_heartbeat db now k data)) = jobs db"
    by (simp add: worker_heartbeat_def split: option.splits)
  then show ?thesis
    using assms(1) WorkerHeartbeat by (simp add: pending_job_def)
next
  case (RequestTask now k)
  then show ?thesis
    using assms(1,2) by (simp add: pending_job_request_task)
next
  case (DisableWorker k)
  have "jobs (fst (disable_worker db k)) = jobs db"
    by (simp add: disable_worker_def split: option.splits)
  then show ?thesis
    using assms(1) DisableWorker by (simp add: pending_job_def)
next
  case (EnableWorker k)
  have "jobs (fst (enable_worker db k)) = jobs db"
    by (simp add: enable_worker_def split: option.splits)
  then show ?thesis
    using assms(1) EnableWorker by (simp add: pending_job_def)
next
  case (DeleteWorker k)
  have "jobs (fst (delete_worker_endpoint db k)) = jobs db"
    by (simp add: delete_worker_endpoint_def split: option.splits)
  then show ?thesis
    using assms(1) DeleteWorker by (simp add: pending_job_def)
next
  case (SchedulerTick uuid4 now)
  then show ?thesis
    using assms(1) by (simp add: pending_job_scheduler_tick)
qed

lemma pending_without_tasks_apply_operation:
  assumes "partitions_own_job plugins" and "pending_without_tasks db f"
    and "\<not> moves_job f op"
  shows "pending_without_tasks (apply_operation plugins fp db op) f"
proof -
  have p: "pending_job db f" and n: "f \<notin> task_jobs db"
    using assms(2) by (simp_all add: pending_without_tasks_def no_tasks_of_iff)
  have p': "pending_job (apply_operation plugins fp db op) f"
    using p n assms(3) by (rule pending_job_apply_operation)
  have "f \<notin> task_jobs (apply_operation plugins fp db op)"
  proof (cases "resubmits f op")
    case False
    show ?thesis
      using assms(1) False n by (rule task_jobs_apply_operation)
  next
    case True
    then obtain now submission where op: "op = Submit f now submission"
      by (cases op) simp_all
    have "get_job db f \<noteq> None"
      using pending_job_get_job [OF p] by auto
    then have "fst (submit_job plugins db f now submission) = db"
      by (rule submit_job_existing_id)
    then show ?thesis
      using op n by simp
  qed
  then show ?thesis
    using p' by (simp add: pending_without_tasks_def no_tasks_of_iff)
qed

lemma pending_without_tasks_run:
  assumes "partitions_own_job plugins" and "pending_without_tasks db f"
    and "\<forall>op \<in> set ops. \<not> moves_job f op"
  shows "pending_without_tasks (run plugins fp db ops) f"
  using assms(2,3) unfolding run_def
proof (induction ops arbitrary: db)
  case Nil
  then show ?case by simp
next
  case (Cons op ops)
  have "pending_without_tasks (apply_operation plugins fp db op) f"
    using assms(1) Cons.prems by (intro pending_without_tasks_apply_operation) simp_all
  then show ?case
    using Cons.IH [of "apply_operation plugins fp db op"] Cons.prems by simp
qed

lemma no_tasks_of_run:
  assumes "partitions_own_job plugins" and "no_tasks_of db f"
    and "\<forall>op \<in> set ops. \<not> resubmits f op"
  shows "no_tasks_of (run plugins fp db ops) f"
  using assms(2,3) unfolding run_def
proof (induction ops arbitrary: db)
  case Nil
  then show ?case by simp
next
  case (Cons op ops)
  have "f \<notin> task_jobs (apply_operation plugins fp db op)"
    using assms(1) Cons.prems
    by (intro task_jobs_apply_operation) (simp_all add: no_tasks_of_iff)
  then show ?case
    using Cons.IH [of "apply_operation plugins fp db op"] Cons.prems
    by (simp add: no_tasks_of_iff)
qed

lemma request_task_no_tasks_of:
  assumes "no_tasks_of db f" and "returned_task (request_task db now k) = Some t"
  shows "t_job_id t \<noteq> f"
proof -
  obtain db' r where run: "request_task db now k = (db', r)"
    by (cases "request_task db now k")
  then obtain jo where "r = Inr (Some (t, jo))"
    using assms(2) by (auto simp: returned_task_def split: sum.splits option.splits)
  then obtain w t0 where t0: "get_next_task_for_worker db w = Some t0"
      and t: "t = t0\<lparr>t_status := TASK_ASSIGNED, t_assigned_worker := Some k\<rparr>"
    using request_task_assigned [of db now k db' t jo] run by blast
  have "t0 \<in> set (tasks db)"
    using get_next_task_for_worker_Some [OF t0] by simp
  then show ?thesis
    using assms(1) t by (auto simp: no_tasks_of_def list_all_iff)
qed

lemma create_follow_up_jobs_appends:
  "take (length (jobs db)) (jobs (fst (create_follow_up_jobs plugins uuid4 now job (db, n))))
     = jobs db
   \<and> list_all (\<lambda>j. j_status j = JOB_PENDING)
       (drop (length (jobs db)) (jobs (fst (create_follow_up_jobs plugins uuid4 now job (db, n)))))"
proof -
  obtain new where "jobs (fst (create_follow_up_jobs plugins uuid4 now job (db, n)))
      = jobs db @ new" "\<forall>r \<in> set new. j_status r = JOB_PENDING"
    using create_follow_up_jobs_frame [of plugins uuid4 now job db n] by blast
  then show ?thesis
    by (simp add: list_all_iff)
qed

lemma partitions_own_job_render_registry: "partitions_own_job render_registry"
  unfolding partitions_own_job_def render_registry_def
  by (auto simp: render_plugin_def single_task_plugin_def example_task_def split: if_splits)
section \<open>The claims\<close>

subsection \<open>C1: dependencies at pull time\<close>

text \<open>
  C1. A pull should hand out a pending task only when every job id in its job's
  \<^verbatim>\<open>dependent_on\<close> names a completed job, and never when one of them names no job at all.
  The dispatch query joins tasks and jobs on status and pool only and never reads
  \<^verbatim>\<open>dependent_on\<close>; \<^verbatim>\<open>_check_dependencies\<close> is called only from the disabled
  \<^verbatim>\<open>_schedule_pending_jobs\<close>. On the store below, job \<^verbatim>\<open>j1\<close> waits on the id \<^verbatim>\<open>missing\<close>, which
  no job has, and the pull of worker \<^verbatim>\<open>w1\<close> still returns its task \<^verbatim>\<open>t1\<close>.
\<close>

theorem pull_ignores_dependencies:
  "map_option j_dependent_on (get_job missing_dependency_db ''j1'') = Some [''missing'']
   \<and> get_job missing_dependency_db ''missing'' = None
   \<and> map_option (check_dependencies missing_dependency_db)
        (get_job missing_dependency_db ''j1'') = Some False
   \<and> map_option t_id (returned_task (request_task missing_dependency_db 5 ''w1'')) = Some ''t1''
   \<and> map_option t_job_id (returned_task (request_task missing_dependency_db 5 ''w1''))
       = Some ''j1''"
  by code_simp

subsection \<open>C2: capabilities at pull time\<close>

text \<open>
  C2. A worker with a non-empty capability list should only be handed tasks of jobs whose
  plugin is in that list. The dispatch query never reads the capabilities (only the
  disabled \<^verbatim>\<open>_find_task_for_worker\<close> does): worker \<^verbatim>\<open>w1\<close> declares \<^verbatim>\<open>ffmpeg\<close> alone and is
  handed the task of the \<^verbatim>\<open>aftereffects\<close> job \<^verbatim>\<open>j1\<close>.
\<close>

theorem pull_ignores_capabilities:
  "map_option w_capabilities (get_worker other_plugin_db ''w1'') = Some [''ffmpeg'']
   \<and> map_option j_plugin (get_job other_plugin_db ''j1'') = Some ''aftereffects''
   \<and> map_option t_id (returned_task (request_task other_plugin_db 5 ''w1'')) = Some ''t1''
   \<and> map_option t_job_id (returned_task (request_task other_plugin_db 5 ''w1''))
       = Some ''j1''"
  by code_simp

subsection \<open>C5: what a heartbeat writes\<close>




subsection \<open>C9: cancelling a job\<close>

text \<open>
  C9. Cancelling a job that is already completed, cancelled or failed should be rejected
  with a 400 and leave the status alone. \<^verbatim>\<open>Scheduler.cancel_job\<close> has no test of the status
  (its siblings \<^verbatim>\<open>suspend_job\<close>, \<^verbatim>\<open>resume_job\<close> and \<^verbatim>\<open>retry_job\<close> have one): on a completed job
  the endpoint answers normally and the job becomes cancelled.
\<close>

theorem cancel_overwrites_completed_job:
  "map_option j_status (get_job completed_db ''j1'') = Some JOB_COMPLETED
   \<and> snd (cancel_job_endpoint completed_db 7 ''j1'') = Inr ()
   \<and> map_option j_status (get_job (fst (cancel_job_endpoint completed_db 7 ''j1'')) ''j1'')
       = Some JOB_CANCELLED"
  by code_simp

subsection \<open>C3: the aggregation step and failed tasks\<close>

text \<open>
  C3, as the code has it. For every active job that the aggregation pass of the scheduler
  processes and whose tasks are all completed or failed, at least one of them failed: the
  pass writes the counts and the progress (the float quotient of the float sum of the task
  progresses by the number of tasks, whatever the float operations round to), and it sets
  the status to failed (with \<^verbatim>\<open>finished_at\<close> and the message \<^verbatim>\<open>"<n> tasks failed"\<close>) exactly
  when every task failed or more than \<^verbatim>\<open>max_task_retries\<close> tasks failed. Otherwise the job
  stays active. Every other field of the row is the one read at the start of the pass.
\<close>

theorem aggregation_fails_job_above_threshold:
  assumes "distinct (map j_id (jobs db))"
    and "job \<in> set (jobs db)" and "j_status job = JOB_ACTIVE"
    and "length (get_tasks_by_job db (j_id job))
        \<le> count_status TASK_COMPLETED (get_tasks_by_job db (j_id job))
          + count_status TASK_FAILED (get_tasks_by_job db (j_id job))"
    and "count_status TASK_FAILED (get_tasks_by_job db (j_id job)) \<noteq> 0"
  shows "get_job (update_job_progress plugins fp uuid4 now db) (j_id job)
    = Some (let ts = get_tasks_by_job db (j_id job);
                failed = count_status TASK_FAILED ts;
                job1 = job\<lparr>j_progress := float_truediv fp (task_progress_sum fp ts) (real (length ts)),
                           j_task_completed := int (count_status TASK_COMPLETED ts),
                           j_task_failed := int failed\<rparr>
            in if failed \<ge> length ts \<or> failed > max_task_retries
               then job1\<lparr>j_status := JOB_FAILED, j_finished_at := Some now,
                          j_error_message := Some (str_nat failed @ '' tasks failed'')\<rparr>
               else job1)"
proof -
  have d: "distinct (map j_id (get_jobs_by_status db JOB_ACTIVE))"
    unfolding get_jobs_by_status_def using assms(1) by (rule distinct_map_sort_key_filter)
  have m: "job \<in> set (get_jobs_by_status db JOB_ACTIVE)"
    using assms(2,3) by (simp add: get_jobs_by_status_def)
  have r: "get_job (fst (db, 0::nat)) (j_id job) = Some job"
    using find_distinct_key [OF assms(1,2)] by (simp add: get_job_def)
  show ?thesis
    unfolding update_job_progress_def
  proof (rule foldl_update_one_job_progress_own [OF d m r])
    fix db' :: Database and n :: nat
    assume row: "get_job db' (j_id job) = Some job" and "tasks db' = tasks (fst (db, 0::nat))"
    then have ts: "get_tasks_by_job db' (j_id job) = get_tasks_by_job db (j_id job)"
      by (simp add: get_tasks_by_job_def)
    show "get_job (fst (update_one_job_progress plugins fp uuid4 now (db', n) job)) (j_id job)
      = Some (let ts = get_tasks_by_job db (j_id job);
                failed = count_status TASK_FAILED ts;
                job1 = job\<lparr>j_progress := float_truediv fp (task_progress_sum fp ts) (real (length ts)),
                           j_task_completed := int (count_status TASK_COMPLETED ts),
                           j_task_failed := int failed\<rparr>
            in if failed \<ge> length ts \<or> failed > max_task_retries
               then job1\<lparr>j_status := JOB_FAILED, j_finished_at := Some now,
                          j_error_message := Some (str_nat failed @ '' tasks failed'')\<rparr>
               else job1)"
      by (rule update_one_job_progress_failed [OF row, unfolded ts, OF assms(4) assms(5)])
  qed
qed

text \<open>
  The theorem on both sides of the threshold: one failed task of two leaves the job
  active, two failed tasks of two fail it.
\<close>

theorem aggregation_fails_job_above_threshold_witness:
  "get_job (update_job_progress no_plugins unrounded uuid_example 100 partly_failed_db) ''j1''
     = Some ((example_job ''j1'' ''ffmpeg'' JOB_ACTIVE [])
              \<lparr>j_task_total := 2, j_progress := 50, j_task_completed := 1,
               j_task_failed := 1\<rparr>)
   \<and> get_job (update_job_progress no_plugins unrounded uuid_example 100 all_failed_db) ''j1''
     = Some ((example_job ''j1'' ''ffmpeg'' JOB_ACTIVE [])
              \<lparr>j_task_total := 2, j_progress := 0, j_task_completed := 0,
               j_task_failed := 2, j_status := JOB_FAILED, j_finished_at := Some 100,
               j_error_message := Some ''2 tasks failed''\<rparr>)"
proof -
  let ?job = "(example_job ''j1'' ''ffmpeg'' JOB_ACTIVE [])\<lparr>j_task_total := 2\<rparr>"
  have id: "j_id ?job = ''j1''"
    by (simp add: example_job_def new_Job_def)
  have h3: "j_status ?job = JOB_ACTIVE"
    by (simp add: example_job_def)
  have ts: "get_tasks_by_job partly_failed_db ''j1''
      = [example_task ''t1'' ''j1'' 0 TASK_COMPLETED (Some ''w1''),
         example_task ''t2'' ''j1'' 1 TASK_FAILED (Some ''w1'')]"
    by (simp add: get_tasks_by_job_def partly_failed_db_def example_task_def)
  have h1: "distinct (map j_id (jobs partly_failed_db))"
    by (simp add: partly_failed_db_def)
  have h2: "?job \<in> set (jobs partly_failed_db)"
    by (simp add: partly_failed_db_def)
  have h4: "length (get_tasks_by_job partly_failed_db (j_id ?job))
        \<le> count_status TASK_COMPLETED (get_tasks_by_job partly_failed_db (j_id ?job))
          + count_status TASK_FAILED (get_tasks_by_job partly_failed_db (j_id ?job))"
    unfolding id ts by (simp add: count_status_def example_task_def)
  have h5: "count_status TASK_FAILED (get_tasks_by_job partly_failed_db (j_id ?job)) \<noteq> 0"
    unfolding id ts by (simp add: count_status_def example_task_def)
  have first: "get_job (update_job_progress no_plugins unrounded uuid_example 100 partly_failed_db) ''j1''
     = Some ((example_job ''j1'' ''ffmpeg'' JOB_ACTIVE [])
              \<lparr>j_task_total := 2, j_progress := 50, j_task_completed := 1,
               j_task_failed := 1\<rparr>)"
    using aggregation_fails_job_above_threshold [OF h1 h2 h3 h4 h5, of no_plugins unrounded uuid_example 100]
    unfolding id ts
    by (simp add: count_status_def example_task_def task_progress_sum_def unrounded_def max_task_retries_def
        Let_def)
  have two: "str_nat (Suc (Suc 0)) = ''2''"
    by code_simp
  have ts': "get_tasks_by_job all_failed_db ''j1''
      = [example_task ''t1'' ''j1'' 0 TASK_FAILED (Some ''w1''),
         example_task ''t2'' ''j1'' 1 TASK_FAILED (Some ''w1'')]"
    by (simp add: get_tasks_by_job_def all_failed_db_def example_task_def)
  have g1: "distinct (map j_id (jobs all_failed_db))"
    by (simp add: all_failed_db_def)
  have g2: "?job \<in> set (jobs all_failed_db)"
    by (simp add: all_failed_db_def)
  have g4: "length (get_tasks_by_job all_failed_db (j_id ?job))
        \<le> count_status TASK_COMPLETED (get_tasks_by_job all_failed_db (j_id ?job))
          + count_status TASK_FAILED (get_tasks_by_job all_failed_db (j_id ?job))"
    unfolding id ts' by (simp add: count_status_def example_task_def)
  have g5: "count_status TASK_FAILED (get_tasks_by_job all_failed_db (j_id ?job)) \<noteq> 0"
    unfolding id ts' by (simp add: count_status_def example_task_def)
  have second: "get_job (update_job_progress no_plugins unrounded uuid_example 100 all_failed_db) ''j1''
     = Some ((example_job ''j1'' ''ffmpeg'' JOB_ACTIVE [])
              \<lparr>j_task_total := 2, j_progress := 0, j_task_completed := 0,
               j_task_failed := 2, j_status := JOB_FAILED, j_finished_at := Some 100,
               j_error_message := Some ''2 tasks failed''\<rparr>)"
    using aggregation_fails_job_above_threshold [OF g1 g2 h3 g4 g5, of no_plugins unrounded uuid_example 100]
    unfolding id ts'
    by (simp add: count_status_def example_task_def task_progress_sum_def unrounded_def max_task_retries_def
        Let_def two)
  show ?thesis
    using first second by (rule conjI)
qed

text \<open>
  C3 as stated fails: job \<^verbatim>\<open>j1\<close> is active, one of its two tasks is completed and the other
  failed, so the counts reach the total with a failure among them, and after the pass the
  job is still active.
\<close>

theorem aggregation_keeps_job_active_counterexample:
  "map_option j_status (get_job partly_failed_db ''j1'') = Some JOB_ACTIVE
  \<and> count_status TASK_COMPLETED (get_tasks_by_job partly_failed_db ''j1'') = 1
  \<and> count_status TASK_FAILED (get_tasks_by_job partly_failed_db ''j1'') = 1
  \<and> map_option j_task_total (get_job partly_failed_db ''j1'') = Some 2
  \<and> map_option j_status
       (get_job (update_job_progress no_plugins unrounded uuid_example 100 partly_failed_db) ''j1'')
      = Some JOB_ACTIVE"
  by code_simp

subsection \<open>C4: the assignment invariant\<close>



subsection \<open>C6: rejected and failed submissions\<close>

text \<open>
  C6. A submission that names an unknown plugin, or whose parameters the plugin's
  \<^verbatim>\<open>validate\<close> refuses, is answered with a 400 and leaves the store as it was. A valid
  submission (under a job id the store does not have yet) whose partitioning raises, in
  \<^verbatim>\<open>create_tasks\<close> or while its tasks are inserted, is answered with a 500, and afterwards
  the store has no job with that id and no task with that job id.
\<close>

theorem submit_job_rejects_or_cleans_up:
  "(plugins (s_plugin submission) = None \<longrightarrow>
      fst (submit_job plugins db new_id now submission) = db
      \<and> response_status (submit_job plugins db new_id now submission) = Some 400)
   \<and> (\<forall>plugin. plugins (s_plugin submission) = Some plugin
         \<and> \<not> fst (validate plugin (s_plugin_data submission)) \<longrightarrow>
      fst (submit_job plugins db new_id now submission) = db
      \<and> response_status (submit_job plugins db new_id now submission) = Some 400)
   \<and> (\<forall>plugin. plugins (s_plugin submission) = Some plugin
         \<and> fst (validate plugin (s_plugin_data submission))
         \<and> get_job db new_id = None
         \<and> partition_raises plugin db (submitted_job new_id now submission) \<longrightarrow>
      response_status (submit_job plugins db new_id now submission) = Some 500
      \<and> get_job (fst (submit_job plugins db new_id now submission)) new_id = None
      \<and> (\<forall>t \<in> set (tasks (fst (submit_job plugins db new_id now submission))).
            t_job_id t \<noteq> new_id))"
proof (intro conjI allI impI)
  assume "plugins (s_plugin submission) = None"
  then show "fst (submit_job plugins db new_id now submission) = db"
    and "response_status (submit_job plugins db new_id now submission) = Some 400"
    by (simp_all add: submit_job_def response_status_def)
next
  fix plugin
  assume "plugins (s_plugin submission) = Some plugin
         \<and> \<not> fst (validate plugin (s_plugin_data submission))"
  moreover obtain valid err where "validate plugin (s_plugin_data submission) = (valid, err)"
    by (cases "validate plugin (s_plugin_data submission)")
  ultimately show "fst (submit_job plugins db new_id now submission) = db"
    and "response_status (submit_job plugins db new_id now submission) = Some 400"
    by (simp_all add: submit_job_def response_status_def)
next
  fix plugin
  assume a: "plugins (s_plugin submission) = Some plugin
         \<and> fst (validate plugin (s_plugin_data submission))
         \<and> get_job db new_id = None
         \<and> partition_raises plugin db (submitted_job new_id now submission)"
  let ?job = "submitted_job new_id now submission"
  have id: "j_id ?job = new_id"
    by (simp add: submitted_job_def new_Job_def)
  have added: "add_job db ?job = Inr (db\<lparr>jobs := jobs db @ [?job]\<rparr>)"
    using a id by (simp add: add_job_def)
  obtain err where v: "validate plugin (s_plugin_data submission) = (True, err)"
    using a by (cases "validate plugin (s_plugin_data submission)") auto
  have p: "plugins (s_plugin submission) = Some plugin"
    using a by simp
  have "\<exists>db'. fst (submit_job plugins db new_id now submission) = delete_job db' new_id
      \<and> response_status (submit_job plugins db new_id now submission) = Some 500"
  proof (cases "create_tasks plugin ?job")
    case (Inl e)
    then show ?thesis
      using p v added id
      by (auto simp: submit_job_def submitted_job_def [symmetric] response_status_def)
  next
    case (Inr ts)
    then obtain db2 e where "add_tasks (db\<lparr>jobs := jobs db @ [?job]\<rparr>) ts = (db2, Some e)"
      using a by (cases "add_tasks (db\<lparr>jobs := jobs db @ [?job]\<rparr>) ts")
        (auto simp: partition_raises_def)
    then show ?thesis
      using p v added id Inr
      by (auto simp: submit_job_def submitted_job_def [symmetric] response_status_def)
  qed
  then obtain db' where
    r: "fst (submit_job plugins db new_id now submission) = delete_job db' new_id"
    and s: "response_status (submit_job plugins db new_id now submission) = Some 500"
    by blast
  show "response_status (submit_job plugins db new_id now submission) = Some 500"
    by (rule s)
  show "get_job (fst (submit_job plugins db new_id now submission)) new_id = None"
    unfolding r by (rule get_job_delete_job)
  show "\<forall>t \<in> set (tasks (fst (submit_job plugins db new_id now submission))).
       t_job_id t \<noteq> new_id"
    unfolding r using tasks_delete_job by blast
qed


text \<open>
  The theorem on the store \<open>busy_db\<close>: an unknown plugin, an empty parameter mapping, a
  partitioner that raises and one whose second task cannot be inserted.
\<close>

theorem submit_job_rejects_or_cleans_up_witness:
  "example_registry ''maya'' = None
   \<and> fst (submit_job example_registry busy_db ''j9'' 3 (example_submission ''maya'' [])) = busy_db
   \<and> response_status (submit_job example_registry busy_db ''j9'' 3
        (example_submission ''maya'' [])) = Some 400
   \<and> \<not> fst (validate single_task_plugin [])
   \<and> fst (submit_job example_registry busy_db ''j9'' 3 (example_submission ''ffmpeg'' []))
       = busy_db
   \<and> response_status (submit_job example_registry busy_db ''j9'' 3
        (example_submission ''ffmpeg'' [])) = Some 400
   \<and> partition_raises raising_plugin busy_db
        (submitted_job ''j9'' 3 (example_submission ''raising'' []))
   \<and> response_status (submit_job example_registry busy_db ''j9'' 3
        (example_submission ''raising'' [])) = Some 500
   \<and> get_job (fst (submit_job example_registry busy_db ''j9'' 3
        (example_submission ''raising'' []))) ''j9'' = None
   \<and> partition_raises duplicate_plugin busy_db
        (submitted_job ''j9'' 3 (example_submission ''duplicate'' []))
   \<and> response_status (submit_job example_registry busy_db ''j9'' 3
        (example_submission ''duplicate'' [])) = Some 500
   \<and> get_job (fst (submit_job example_registry busy_db ''j9'' 3
        (example_submission ''duplicate'' []))) ''j9'' = None
   \<and> ''j9'' \<notin> set (map t_job_id (tasks (fst (submit_job example_registry busy_db ''j9'' 3
        (example_submission ''duplicate'' [])))))"
proof -
  have unknown: "example_registry (s_plugin (example_submission ''maya'' [])) = None"
    by (simp add: example_registry_def example_submission_def)
  have known: "example_registry (s_plugin (example_submission ''ffmpeg'' []))
      = Some single_task_plugin"
    by (simp add: example_registry_def example_submission_def)
  have invalid: "\<not> fst (validate single_task_plugin (s_plugin_data (example_submission ''ffmpeg'' [])))"
    by (simp add: single_task_plugin_def example_submission_def)
  have dup: "example_registry (s_plugin (example_submission ''duplicate'' []))
      = Some duplicate_plugin"
    by (simp add: example_registry_def example_submission_def)
  have valid: "fst (validate duplicate_plugin (s_plugin_data (example_submission ''duplicate'' [])))"
    by (simp add: duplicate_plugin_def)
  have fresh: "get_job busy_db ''j9'' = None"
    by (simp add: get_job_def busy_db_def example_job_def new_Job_def)
  have raises: "partition_raises duplicate_plugin busy_db
        (submitted_job ''j9'' 3 (example_submission ''duplicate'' []))"
    by (simp add: partition_raises_def duplicate_plugin_def add_task_def get_task_def
        busy_db_def example_task_def)
  have rai: "example_registry (s_plugin (example_submission ''raising'' []))
      = Some raising_plugin"
    by (simp add: example_registry_def example_submission_def)
  have valid': "fst (validate raising_plugin (s_plugin_data (example_submission ''raising'' [])))"
    by (simp add: raising_plugin_def)
  have raises': "partition_raises raising_plugin busy_db
        (submitted_job ''j9'' 3 (example_submission ''raising'' []))"
    by (simp add: partition_raises_def raising_plugin_def)
  note d = submit_job_rejects_or_cleans_up
    [of example_registry "example_submission ''raising'' []" busy_db "''j9''" 3]
  note a = submit_job_rejects_or_cleans_up
    [of example_registry "example_submission ''maya'' []" busy_db "''j9''" 3]
  note b = submit_job_rejects_or_cleans_up
    [of example_registry "example_submission ''ffmpeg'' []" busy_db "''j9''" 3]
  note c = submit_job_rejects_or_cleans_up
    [of example_registry "example_submission ''duplicate'' []" busy_db "''j9''" 3]
  show ?thesis
    using a b c d unknown known invalid dup valid fresh raises rai valid' raises'
    by (auto simp: example_submission_def example_registry_def)
qed

subsection \<open>C7: the heartbeat timeout sweep\<close>

text \<open>
  C7. The timeout is 60 seconds. For every worker of the store that is not offline and has
  a heartbeat on record: when exactly the timeout has passed since that heartbeat, its
  examination changes nothing and its row is the same after the sweep; when more has
  passed, the sweep leaves it offline with no current task, and if its current task was a
  running task, that task is pending with no assigned worker after the sweep.
\<close>

theorem sweep_times_out_after_the_boundary:
  assumes "distinct (map w_id (workers db))" and "w \<in> set (workers db)"
    and "w_status w \<noteq> WORKER_OFFLINE" and "w_last_heartbeat w = Some l"
  shows "timedelta_seconds worker_timeout = 60 * 1000000
    \<and> (now - l = timedelta_seconds worker_timeout \<longrightarrow>
         (\<forall>db'. check_worker_timeout now db' w = db')
         \<and> get_worker (check_worker_timeouts now db) (w_id w) = Some w)
    \<and> (now - l > timedelta_seconds worker_timeout \<longrightarrow>
         get_worker (check_worker_timeouts now db) (w_id w)
           = Some (w\<lparr>w_status := WORKER_OFFLINE, w_current_task := None\<rparr>)
         \<and> (\<forall>k t. w_current_task w = Some k \<and> k \<noteq> [] \<and> get_task db k = Some t
                \<and> t_status t = TASK_RUNNING \<longrightarrow>
              get_task (check_worker_timeouts now db) k
                = Some (t\<lparr>t_status := TASK_PENDING, t_assigned_worker := None\<rparr>)))"
proof -
  have d: "distinct (map w_id (get_workers db))"
    using distinct_map_sort_key_filter [OF assms(1), of w_name "\<lambda>w. True"]
    by (simp add: get_workers_def)
  have m: "w \<in> set (get_workers db)"
    using assms(2) by (simp add: get_workers_def)
  have r: "get_worker db (w_id w) = Some w"
    using find_distinct_key [OF assms(1,2)] by (simp add: get_worker_def)
  have row: "get_worker (check_worker_timeouts now db) (w_id w)
      = Some (if timed_out now w
              then w\<lparr>w_status := WORKER_OFFLINE, w_current_task := None\<rparr> else w)"
    unfolding check_worker_timeouts_def by (rule foldl_check_worker_timeout_own [OF d m r])
  have t: "timed_out now w \<longleftrightarrow> now - l > timedelta_seconds worker_timeout"
    using assms(3,4) by (simp add: timed_out_def)
  have c1: "timedelta_seconds worker_timeout = 60 * 1000000"
    by (simp add: timedelta_seconds_def worker_timeout_def)
  have c2: "now - l = timedelta_seconds worker_timeout \<longrightarrow>
         (\<forall>db'. check_worker_timeout now db' w = db')
         \<and> get_worker (check_worker_timeouts now db) (w_id w) = Some w"
    using row t by (simp add: check_worker_timeout_not_timed_out)
  have c3: "now - l > timedelta_seconds worker_timeout \<longrightarrow>
         get_worker (check_worker_timeouts now db) (w_id w)
           = Some (w\<lparr>w_status := WORKER_OFFLINE, w_current_task := None\<rparr>)
         \<and> (\<forall>k t. w_current_task w = Some k \<and> k \<noteq> [] \<and> get_task db k = Some t
                \<and> t_status t = TASK_RUNNING \<longrightarrow>
              get_task (check_worker_timeouts now db) k
                = Some (t\<lparr>t_status := TASK_PENDING, t_assigned_worker := None\<rparr>))"
  proof (intro impI conjI allI)
    assume late: "timedelta_seconds worker_timeout < now - l"
    then show "get_worker (check_worker_timeouts now db) (w_id w)
           = Some (w\<lparr>w_status := WORKER_OFFLINE, w_current_task := None\<rparr>)"
      using row t by simp
    fix k t
    assume "w_current_task w = Some k \<and> k \<noteq> [] \<and> get_task db k = Some t
                \<and> t_status t = TASK_RUNNING"
    then show "get_task (check_worker_timeouts now db) k
                = Some (t\<lparr>t_status := TASK_PENDING, t_assigned_worker := None\<rparr>)"
      using foldl_check_worker_timeout_requeues [OF m, of now k db t] late t
      by (simp add: check_worker_timeouts_def requeued_def)
  qed
  show ?thesis
    using c1 c2 c3 by blast
qed

text \<open>
  The theorem on worker \<^verbatim>\<open>w1\<close>, last heard of at time 0 while running \<^verbatim>\<open>t1\<close>: a sweep at
  exactly 60 seconds leaves it alone, a sweep one microsecond later takes the task back.
\<close>

theorem sweep_times_out_after_the_boundary_witness:
  "get_worker (check_worker_timeouts 60000000 silent_db) ''w1''
     = Some (example_worker ''w1'' WORKER_BUSY (Some ''t1'') [] 0)
   \<and> get_worker (check_worker_timeouts 60000001 silent_db) ''w1''
     = Some (example_worker ''w1'' WORKER_OFFLINE None [] 0)
   \<and> get_task (check_worker_timeouts 60000001 silent_db) ''t1''
     = Some (example_task ''t1'' ''j1'' 0 TASK_PENDING None)"
proof -
  let ?w = "example_worker ''w1'' WORKER_BUSY (Some ''t1'') [] 0"
  let ?t = "example_task ''t1'' ''j1'' 0 TASK_RUNNING (Some ''w1'')"
  have h1: "distinct (map w_id (workers silent_db))"
    by (simp add: silent_db_def example_worker_def)
  have h2: "?w \<in> set (workers silent_db)"
    by (simp add: silent_db_def)
  have h3: "w_status ?w \<noteq> WORKER_OFFLINE"
    by (simp add: example_worker_def)
  have h4: "w_last_heartbeat ?w = Some 0"
    by (simp add: example_worker_def)
  have id: "w_id ?w = ''w1''" and cur: "w_current_task ?w = Some ''t1''"
    by (simp_all add: example_worker_def)
  have task: "get_task silent_db ''t1'' = Some ?t" and running: "t_status ?t = TASK_RUNNING"
    by (simp_all add: get_task_def silent_db_def example_task_def)
  have c: "timedelta_seconds worker_timeout = 60000000"
    by (simp add: timedelta_seconds_def worker_timeout_def)
  show ?thesis
    using sweep_times_out_after_the_boundary [OF h1 h2 h3 h4, of 60000000]
      sweep_times_out_after_the_boundary [OF h1 h2 h3 h4, of 60000001]
      id cur task running c
    by (simp add: example_worker_def example_task_def)
qed

subsection \<open>C8: retrying a failed job\<close>

text \<open>
  C8, as the code has it. Retrying a job in status failed succeeds; the task table keeps
  its rows and their ids; exactly the failed tasks of the job become pending with the
  assigned worker, the exit code and the error message cleared, and every other task is
  left as it was; the job becomes queued with \<^verbatim>\<open>task_failed\<close> zero and no error message or
  finish time. \<^verbatim>\<open>Job.progress\<close> is not written: it keeps the value it had.
\<close>

theorem retry_job_resets_failed_tasks:
  assumes "distinct (map t_id (tasks db))"
    and "get_job db job_id = Some job" and "j_status job = JOB_FAILED"
  shows "snd (retry_job db job_id) = True
    \<and> map t_id (tasks (fst (retry_job db job_id))) = map t_id (tasks db)
    \<and> tasks (fst (retry_job db job_id))
        = map (\<lambda>t. if t_job_id t = job_id \<and> t_status t = TASK_FAILED
                   then t\<lparr>t_status := TASK_PENDING, t_assigned_worker := None,
                          t_error_message := None, t_exit_code := None\<rparr>
                   else t) (tasks db)
    \<and> get_job (fst (retry_job db job_id)) job_id
        = Some (job\<lparr>j_status := JOB_QUEUED, j_task_failed := 0, j_error_message := None,
                    j_finished_at := None\<rparr>)
    \<and> map_option j_progress (get_job (fst (retry_job db job_id)) job_id)
        = Some (j_progress job)"
proof -
  let ?ts = "get_tasks_by_job db job_id"
  let ?db = "foldl retry_task_of_job db ?ts"
  let ?job = "job\<lparr>j_status := JOB_QUEUED, j_task_failed := 0, j_error_message := None,
                    j_finished_at := None\<rparr>"
  have run: "retry_job db job_id = (update_job ?db ?job, True)"
    using assms(2,3) by (simp add: retry_job_def)
  have d: "distinct (map t_id ?ts)"
    unfolding get_tasks_by_job_def using assms(1) by (rule distinct_map_sort_key_filter)
  have sub: "set ?ts \<subseteq> set (tasks db)"
    by (auto simp: get_tasks_by_job_def)
  have mem: "r \<in> set ?ts \<longleftrightarrow> r \<in> set (tasks db) \<and> t_job_id r = job_id" for r
    by (auto simp: get_tasks_by_job_def)
  have "tasks ?db
      = map (\<lambda>r. if r \<in> set ?ts \<and> t_status r = TASK_FAILED then retried r else r) (tasks db)"
    by (rule foldl_retry_task_of_job_tasks [OF assms(1) d sub])
  also have "\<dots> = map (\<lambda>t. if t_job_id t = job_id \<and> t_status t = TASK_FAILED
                   then t\<lparr>t_status := TASK_PENDING, t_assigned_worker := None,
                          t_error_message := None, t_exit_code := None\<rparr>
                   else t) (tasks db)"
  proof (rule map_cong [OF refl])
    fix r
    assume "r \<in> set (tasks db)"
    then show "(if r \<in> set ?ts \<and> t_status r = TASK_FAILED then retried r else r)
        = (if t_job_id r = job_id \<and> t_status r = TASK_FAILED
           then r\<lparr>t_status := TASK_PENDING, t_assigned_worker := None,
                  t_error_message := None, t_exit_code := None\<rparr>
           else r)"
      by (simp add: mem retried_def)
  qed
  finally have ts: "tasks (fst (retry_job db job_id))
      = map (\<lambda>t. if t_job_id t = job_id \<and> t_status t = TASK_FAILED
                   then t\<lparr>t_status := TASK_PENDING, t_assigned_worker := None,
                          t_error_message := None, t_exit_code := None\<rparr>
                   else t) (tasks db)"
    by (simp add: run)
  have ids: "map t_id (tasks (fst (retry_job db job_id))) = map t_id (tasks db)"
    unfolding ts map_map by (rule map_cong [OF refl]) simp
  have id: "j_id job = job_id"
    using assms(2) by (rule get_job_id)
  have "get_job ?db job_id = Some job"
    using assms(2) by (simp add: get_job_def)
  then have row: "get_job (fst (retry_job db job_id)) job_id = Some ?job"
    using id by (simp add: run get_job_update_job)
  show ?thesis
    using run ts ids row by simp
qed

text \<open>
  The theorem on the job that failed after its first task completed and its second task
  failed: the second task is pending again, the job is queued, the progress is still 50.
\<close>

theorem retry_job_resets_failed_tasks_witness:
  "snd (retry_job failed_after_half_db ''j1'')
   \<and> tasks (fst (retry_job failed_after_half_db ''j1''))
     = [\<lparr>t_id = ''t1'', t_job_id = ''j1'', t_index = 0, t_status = TASK_COMPLETED,
          t_progress = 0, t_command = [], t_working_dir = None, t_environment = [],
          t_frame_start = None, t_frame_end = None, t_metadata = [],
          t_assigned_worker = Some ''w1'', t_started_at = Some 4, t_finished_at = Some 5,
          t_exit_code = Some 0, t_error_message = None, t_log_path = None\<rparr>,
        \<lparr>t_id = ''t2'', t_job_id = ''j1'', t_index = 1, t_status = TASK_PENDING,
          t_progress = 0, t_command = [], t_working_dir = None, t_environment = [],
          t_frame_start = None, t_frame_end = None, t_metadata = [],
          t_assigned_worker = None, t_started_at = Some 7, t_finished_at = Some 8,
          t_exit_code = None, t_error_message = None, t_log_path = None\<rparr>]
   \<and> map_option j_status (get_job (fst (retry_job failed_after_half_db ''j1'')) ''j1'')
     = Some JOB_QUEUED
   \<and> map_option j_progress (get_job (fst (retry_job failed_after_half_db ''j1'')) ''j1'')
     = Some 50"
proof -
  have ts: "tasks failed_after_half_db
     = [\<lparr>t_id = ''t1'', t_job_id = ''j1'', t_index = 0, t_status = TASK_COMPLETED,
          t_progress = 0, t_command = [], t_working_dir = None, t_environment = [],
          t_frame_start = None, t_frame_end = None, t_metadata = [],
          t_assigned_worker = Some ''w1'', t_started_at = Some 4, t_finished_at = Some 5,
          t_exit_code = Some 0, t_error_message = None, t_log_path = None\<rparr>,
        \<lparr>t_id = ''t2'', t_job_id = ''j1'', t_index = 1, t_status = TASK_FAILED,
          t_progress = 0, t_command = [], t_working_dir = None, t_environment = [],
          t_frame_start = None, t_frame_end = None, t_metadata = [],
          t_assigned_worker = Some ''w1'', t_started_at = Some 7, t_finished_at = Some 8,
          t_exit_code = Some 1, t_error_message = Some ''render crashed'',
          t_log_path = None\<rparr>]"
    by code_simp
  have h1: "distinct (map t_id (tasks failed_after_half_db))"
    unfolding ts by simp
  have h2: "get_job failed_after_half_db ''j1''
     = Some \<lparr>j_id = ''j1'', j_name = ''shot 12'', j_plugin = ''ffmpeg'', j_priority = 50,
          j_pool = ''default'', j_plugin_data = [], j_status = JOB_FAILED, j_progress = 50,
          j_task_total = 2, j_task_completed = 1, j_task_failed = 1, j_dependent_on = [],
          j_metadata = [], j_submitted_by = None, j_submitted_at = 1,
          j_started_at = Some 3, j_finished_at = Some 8,
          j_error_message = Some ''render crashed''\<rparr>"
    by code_simp
  show ?thesis
    using retry_job_resets_failed_tasks [OF h1 h2]
    unfolding ts by simp
qed

text \<open>
  C8 as stated fails in its last part. After the late start report for the first task the
  failed job has no completed task, and its recorded progress is 50; the retry leaves the
  50 in place, which is not the completed fraction.
\<close>

theorem retry_job_keeps_stale_progress_counterexample:
  "map_option j_status (get_job late_start_db ''j1'') = Some JOB_FAILED
   \<and> map t_status (get_tasks_by_job (fst (retry_job late_start_db ''j1'')) ''j1'')
     = [TASK_RUNNING, TASK_PENDING]
   \<and> count_status TASK_COMPLETED
       (get_tasks_by_job (fst (retry_job late_start_db ''j1'')) ''j1'') = 0
   \<and> map_option j_progress (get_job (fst (retry_job late_start_db ''j1'')) ''j1'')
     = Some 50"
  by code_simp

subsection \<open>C10: follow-up jobs\<close>

text \<open>
  C10, as the code has it. \<^verbatim>\<open>_create_follow_up_jobs\<close> appends job rows that are all pending
  and writes no task. With plugins whose \<^verbatim>\<open>create_tasks\<close> returns tasks of the job it is given:
  a job that is pending and has no task stays pending without tasks through every run of
  coordinator operations that neither suspends nor cancels it; and a job without tasks
  stays without tasks through every run that submits no job under its id, whatever its
  status becomes, so that no pull after such a run returns a task of it.
\<close>

theorem follow_up_job_stays_pending:
  assumes "partitions_own_job plugins"
  shows "tasks (fst (create_follow_up_jobs plugins uuid4 now job (db, n))) = tasks db
    \<and> take (length (jobs db))
          (jobs (fst (create_follow_up_jobs plugins uuid4 now job (db, n)))) = jobs db
    \<and> list_all (\<lambda>j. j_status j = JOB_PENDING)
          (drop (length (jobs db))
             (jobs (fst (create_follow_up_jobs plugins uuid4 now job (db, n)))))
    \<and> (pending_without_tasks db f \<and> (\<forall>op \<in> set ops. \<not> moves_job f op) \<longrightarrow>
          pending_without_tasks (run plugins fp db ops) f)
    \<and> (no_tasks_of db f \<and> (\<forall>op \<in> set ops. \<not> resubmits f op) \<longrightarrow>
          no_tasks_of (run plugins fp db ops) f
          \<and> (\<forall>t. returned_task (request_task (run plugins fp db ops) now worker_id) = Some t
                \<longrightarrow> t_job_id t \<noteq> f))"
proof (intro conjI impI allI)
  show "tasks (fst (create_follow_up_jobs plugins uuid4 now job (db, n))) = tasks db"
    using create_follow_up_jobs_frame [of plugins uuid4 now job db n] by simp
  show "take (length (jobs db))
      (jobs (fst (create_follow_up_jobs plugins uuid4 now job (db, n)))) = jobs db"
    using create_follow_up_jobs_appends [of db plugins uuid4 now job n] by simp
  show "list_all (\<lambda>j. j_status j = JOB_PENDING)
      (drop (length (jobs db))
         (jobs (fst (create_follow_up_jobs plugins uuid4 now job (db, n)))))"
    using create_follow_up_jobs_appends [of db plugins uuid4 now job n] by simp
next
  assume "pending_without_tasks db f \<and> (\<forall>op \<in> set ops. \<not> moves_job f op)"
  then show "pending_without_tasks (run plugins fp db ops) f"
    using pending_without_tasks_run [OF assms, of db f ops fp] by simp
next
  assume a: "no_tasks_of db f \<and> (\<forall>op \<in> set ops. \<not> resubmits f op)"
  then show none: "no_tasks_of (run plugins fp db ops) f"
    using no_tasks_of_run [OF assms, of db f ops fp] by simp
  fix t
  assume "returned_task (request_task (run plugins fp db ops) now worker_id) = Some t"
  then show "t_job_id t \<noteq> f"
    using request_task_no_tasks_of [OF none] by simp
qed

text \<open>
  The theorem on the store after the pass that completed job \<^verbatim>\<open>j1\<close> of the render plugin:
  the pass created the follow-up job \<^verbatim>\<open>follow-up-0\<close>, and after the run \<open>quiet_run\<close> it is
  still pending without tasks and a pull by the idle worker returns no task of it.
\<close>

theorem follow_up_job_stays_pending_witness:
  "pending_without_tasks follow_up_db ''follow-up-0''
   \<and> tasks (fst (create_follow_up_jobs render_registry uuid_example 10
                   (example_job ''j1'' ''aftereffects'' JOB_COMPLETED []) (rendered_db, 0)))
       = tasks rendered_db
   \<and> take 1 (jobs (fst (create_follow_up_jobs render_registry uuid_example 10
                          (example_job ''j1'' ''aftereffects'' JOB_COMPLETED [])
                          (rendered_db, 0))))
       = jobs rendered_db
   \<and> list_all (\<lambda>j. j_status j = JOB_PENDING)
        (drop 1 (jobs (fst (create_follow_up_jobs render_registry uuid_example 10
                              (example_job ''j1'' ''aftereffects'' JOB_COMPLETED [])
                              (rendered_db, 0)))))
   \<and> pending_without_tasks (run render_registry unrounded follow_up_db quiet_run)
        ''follow-up-0''
   \<and> no_tasks_of (run render_registry unrounded follow_up_db quiet_run) ''follow-up-0''
   \<and> map_option t_job_id
        (returned_task
           (request_task (run render_registry unrounded follow_up_db quiet_run) 20 ''w1''))
       \<noteq> Some ''follow-up-0''"
proof -
  have plugins: "partitions_own_job render_registry"
    by (rule partitions_own_job_render_registry)
  have start: "pending_without_tasks follow_up_db ''follow-up-0''"
    by code_simp
  have quiet: "\<forall>op \<in> set quiet_run. \<not> moves_job ''follow-up-0'' op"
    "\<forall>op \<in> set quiet_run. \<not> resubmits ''follow-up-0'' op"
    by (simp_all add: quiet_run_def)
  have len: "length (jobs rendered_db) = 1"
    by (simp add: rendered_db_def)
  note created = follow_up_job_stays_pending [OF plugins, of uuid_example 10
      "example_job ''j1'' ''aftereffects'' JOB_COMPLETED []" rendered_db 0]
  note kept = follow_up_job_stays_pending [OF plugins, of _ 20 _ follow_up_db _
      "''follow-up-0''" quiet_run unrounded "''w1''"]
  have c1: "tasks (fst (create_follow_up_jobs render_registry uuid_example 10
                   (example_job ''j1'' ''aftereffects'' JOB_COMPLETED []) (rendered_db, 0)))
       = tasks rendered_db"
    and c2: "take 1 (jobs (fst (create_follow_up_jobs render_registry uuid_example 10
                          (example_job ''j1'' ''aftereffects'' JOB_COMPLETED [])
                          (rendered_db, 0))))
       = jobs rendered_db"
    and c3: "list_all (\<lambda>j. j_status j = JOB_PENDING)
        (drop 1 (jobs (fst (create_follow_up_jobs render_registry uuid_example 10
                              (example_job ''j1'' ''aftereffects'' JOB_COMPLETED [])
                              (rendered_db, 0)))))"
    using created unfolding len by simp_all
  have k1: "pending_without_tasks (run render_registry unrounded follow_up_db quiet_run)
        ''follow-up-0''"
    using kept start quiet(1) by simp
  have free: "no_tasks_of follow_up_db ''follow-up-0''"
    using start by (simp add: pending_without_tasks_def)
  have k2: "no_tasks_of (run render_registry unrounded follow_up_db quiet_run) ''follow-up-0''"
    using kept free quiet(2) by simp
  have k3: "returned_task
           (request_task (run render_registry unrounded follow_up_db quiet_run) 20 ''w1'')
         = Some t \<Longrightarrow> t_job_id t \<noteq> ''follow-up-0''" for t
    using kept free quiet(2) by simp
  have k4: "map_option t_job_id
        (returned_task
           (request_task (run render_registry unrounded follow_up_db quiet_run) 20 ''w1''))
       \<noteq> Some ''follow-up-0''"
    using k3 by (cases "returned_task
           (request_task (run render_registry unrounded follow_up_db quiet_run) 20 ''w1'')")
      simp_all
  show ?thesis
    using start c1 c2 c3 k1 k2 k4 by simp
qed

text \<open>
  C10 as stated fails: the follow-up job \<^verbatim>\<open>follow-up-0\<close> that the scheduler created when job
  \<^verbatim>\<open>j1\<close> completed is pending, depends on \<^verbatim>\<open>j1\<close> and has no task; a cancel request makes it
  cancelled, and a suspend request followed by a resume request makes it active. Tasks
  under its id appear when a plugin files the tasks of another job under it, and when,
  after the job was cancelled and deleted, a job is submitted under the same id.
\<close>

theorem follow_up_job_leaves_pending_counterexample:
  "map_option j_status (get_job rendered_db ''j1'') = Some JOB_ACTIVE
   \<and> get_job rendered_db ''follow-up-0'' = None
   \<and> map_option j_status (get_job follow_up_db ''j1'') = Some JOB_COMPLETED
   \<and> map_option j_status (get_job follow_up_db ''follow-up-0'') = Some JOB_PENDING
   \<and> map_option j_dependent_on (get_job follow_up_db ''follow-up-0'') = Some [''j1'']
   \<and> no_tasks_of follow_up_db ''follow-up-0''
   \<and> snd (cancel_job_endpoint follow_up_db 11 ''follow-up-0'') = Inr ()
   \<and> map_option j_status
        (get_job (fst (cancel_job_endpoint follow_up_db 11 ''follow-up-0'')) ''follow-up-0'')
       = Some JOB_CANCELLED
   \<and> map_option j_status
        (get_job (run render_registry unrounded follow_up_db
                    [SuspendJob 11 ''follow-up-0'', ResumeJob 12 ''follow-up-0''])
           ''follow-up-0'')
       = Some JOB_ACTIVE
   \<and> \<not> no_tasks_of
         (run misfiling_registry unrounded follow_up_db
            [Submit ''j2'' 12 (example_submission ''ffmpeg'' [])])
         ''follow-up-0''
   \<and> \<not> no_tasks_of
         (run render_registry unrounded follow_up_db
            [CancelJob 11 ''follow-up-0'', DeleteJob ''follow-up-0'',
             Submit ''follow-up-0'' 12 (example_submission ''ffmpeg'' [(''input'', ''a.mov'')])])
         ''follow-up-0''"
  by code_simp
end
